theory Spec2Isabelle
  imports Main "HOL-Library.Sublist" "HOL-Library.AList"
begin

section \<open>Signale: message composition and timers (src/signale.js)\<close>

text \<open>
  A shallow embedding of the class \<^verbatim>\<open>Signale\<close> of \<^verbatim>\<open>src/signale.js\<close>. An instance is a
  record of the fields the methods read and write, together with the store of the objects
  that the instance and its callers share; a method takes the instance and returns its
  result together with the instance after the call. A \<^verbatim>\<open>TypeError\<close> thrown by the
  JavaScript is the value \<open>Inl TypeError\<close>, and the instance returned with it is the one
  the exception leaves behind. Strings are lists of code units.
\<close>

subsection \<open>Strings and numbers\<close>

definition digit :: "nat \<Rightarrow> char" where
  "digit d = ''0123456789'' ! d"

text \<open>The decimal digits of a non-negative integer, as \<^verbatim>\<open>String(n)\<close> gives them.\<close>

fun dec :: "nat \<Rightarrow> string" where
  "dec n = (if n < 10 then [digit n] else dec (n div 10) @ [digit (n mod 10)])"

declare dec.simps [simp del]

text \<open>\<^verbatim>\<open>String(i)\<close> for an integer \<open>i\<close> (below \<open>10^21\<close> in magnitude).\<close>

definition num_str :: "int \<Rightarrow> string" where
  "num_str i = (if i < 0 then CHR ''-'' # dec (nat (- i)) else dec (nat i))"

text \<open>\<^verbatim>\<open>s.padEnd(n)\<close>: spaces are appended until the length is \<open>n\<close>.\<close>

definition padEnd :: "string \<Rightarrow> nat \<Rightarrow> string" where
  "padEnd s n = s @ replicate (n - length s) CHR '' ''"

text \<open>\<^verbatim>\<open>xs.join(sep)\<close> on an array of strings.\<close>

fun join :: "string \<Rightarrow> string list \<Rightarrow> string" where
  "join sep [] = []"
| "join sep [x] = x"
| "join sep (x # y # ys) = x @ sep @ join sep (y # ys)"

text \<open>\<^verbatim>\<open>s.includes(p)\<close>: \<open>p\<close> occurs in \<open>s\<close> as a contiguous run.\<close>

fun str_includes :: "string \<Rightarrow> string \<Rightarrow> bool" where
  "str_includes [] p = (p = [])"
| "str_includes (c # cs) p = (prefix p (c # cs) \<or> str_includes cs p)"

text \<open>\<^verbatim>\<open>s.split(c)\<close> for a one-character separator.\<close>

fun str_split :: "char \<Rightarrow> string \<Rightarrow> string list" where
  "str_split c [] = [[]]"
| "str_split c (x # xs) =
     (if x = c then [] # str_split c xs
      else (case str_split c xs of [] \<Rightarrow> [[x]] | l # ls \<Rightarrow> (x # l) # ls))"

text \<open>
  \<^verbatim>\<open>s.replace(c, r)\<close> with a one-character string pattern: only the first occurrence is
  replaced (\<open>r\<close> is taken literally).
\<close>

fun replace_first :: "char \<Rightarrow> string \<Rightarrow> string \<Rightarrow> string" where
  "replace_first c r [] = []"
| "replace_first c r (x # xs) = (if x = c then r @ xs else x # replace_first c r xs)"

definition is_space :: "char \<Rightarrow> bool" where
  "is_space c = (c \<in> set [CHR '' '', CHR 0x09, CHR 0x0A, CHR 0x0B, CHR 0x0C, CHR 0x0D, CHR 0xA0])"

text \<open>\<^verbatim>\<open>s.trim()\<close>, on the white space a one-byte code unit can hold.\<close>

definition trim :: "string \<Rightarrow> string" where
  "trim s = rev (dropWhile is_space (rev (dropWhile is_space s)))"

text \<open>
  The upper-case form of the letters a to z. \<^verbatim>\<open>String.prototype.toUpperCase\<close> itself is a
  function of the host and a parameter of the model (\<open>toUpperCase\<close> below).
\<close>

definition ascii_upper :: "char \<Rightarrow> char" where
  "ascii_upper c =
     (case map_of (zip ''abcdefghijklmnopqrstuvwxyz'' ''ABCDEFGHIJKLMNOPQRSTUVWXYZ'') c of
        None \<Rightarrow> c
      | Some u \<Rightarrow> u)"

text \<open>
  An array index (ECMAScript, 6.1.7): the canonical decimal form of an integer below
  \<open>2^32 - 1\<close>.
\<close>

definition digit_of :: "char \<Rightarrow> nat option" where
  "digit_of c = map_of (zip ''0123456789'' [0, 1, 2, 3, 4, 5, 6, 7, 8, 9]) c"

fun digits_value :: "string \<Rightarrow> nat \<Rightarrow> nat option" where
  "digits_value [] acc = Some acc"
| "digits_value (c # cs) acc =
     (case digit_of c of None \<Rightarrow> None | Some d \<Rightarrow> digits_value cs (10 * acc + d))"

definition array_index :: "string \<Rightarrow> nat option" where
  "array_index k =
     (case digits_value k 0 of
        None \<Rightarrow> None
      | Some i \<Rightarrow> if k \<noteq> [] \<and> dec i = k \<and> i < 2 ^ 32 - 1 then Some i else None)"

subsection \<open>The duration string: double division and \<^verbatim>\<open>toFixed(2)\<close>\<close>

text \<open>
  \<^verbatim>\<open>span / 1000\<close> is a division of IEEE 754 doubles, rounded to the nearest double with
  ties to even. A time span is the difference of two \<^verbatim>\<open>Date.now()\<close> readings, an integer
  below \<open>2^53\<close>, so it is a double itself and so is 1000. For \<open>1000 \<le> n < 2^53\<close> the
  quotient lies in \<open>[1, 2^44)\<close>; its double has 53 significant bits and is the pair
  \<open>(m, s)\<close>, standing for \<open>m / 2^s\<close>, that \<open>div1000\<close> returns.
\<close>

fun bitlen :: "nat \<Rightarrow> nat" where
  "bitlen n = (if n = 0 then 0 else Suc (bitlen (n div 2)))"

declare bitlen.simps [simp del]

text \<open>\<open>a / b\<close> rounded to the nearest integer, a tie to the even one.\<close>

definition rne :: "nat \<Rightarrow> nat \<Rightarrow> nat" where
  "rne a b = (let q = a div b; r = a mod b in
     if 2 * r < b then q else if b < 2 * r then q + 1 else if even q then q else q + 1)"

definition div1000 :: "nat \<Rightarrow> nat \<times> nat" where
  "div1000 n = (let s = 53 - bitlen (n div 1000) in (rne (n * 2 ^ s) 1000, s))"

text \<open>
  \<^verbatim>\<open>x.toFixed(2)\<close> (ECMAScript, Number.prototype.toFixed, for \<open>0 \<le> x < 10^21\<close>): the
  integer \<open>k\<close> for which \<open>k / 100 - x\<close> is closest to zero, the larger one of two; its
  digits, padded on the left with zeros to three at least; a point before the last two.
\<close>

definition hundredths :: "nat \<times> nat \<Rightarrow> nat" where
  "hundredths x = (case x of (m, s) \<Rightarrow> (200 * m + 2 ^ s) div 2 ^ (s + 1))"

definition toFixed2 :: "nat \<times> nat \<Rightarrow> string" where
  "toFixed2 x =
     (let ds = dec (hundredths x);
          ds' = replicate (3 - length ds) CHR ''0'' @ ds
      in take (length ds' - 2) ds' @ ''.'' @ drop (length ds' - 2) ds')"

text \<open>
  Line 296:
  \<^verbatim>\<open>const executionTime = span < 1000 ? span + 'ms' : (span / 1000).toFixed(2) + 's';\<close>
\<close>

definition executionTime :: "int \<Rightarrow> string" where
  "executionTime span =
     (if span < 1000 then num_str span @ ''ms'' else toFixed2 (div1000 (nat span)) @ ''s'')"

subsection \<open>The arguments of a logger\<close>

text \<open>
  A logger only reads its arguments, so they are values here: primitives, arrays of strings
  and plain objects, an object being the list of its own properties in insertion order.
\<close>

datatype jsval =
    JUndefined
  | JNull
  | JBool bool
  | JStr string
  | JArr "string list"
  | JObj "(string \<times> jsval) list"

text \<open>
  What a call can throw: a \<^verbatim>\<open>TypeError\<close>, or the \<^verbatim>\<open>Error\<close> of \<^verbatim>\<open>scope\<close> (line 206).
  \<open>Unmodelled\<close> marks the three places where the model stops: a write of an array index or
  of \<^verbatim>\<open>length\<close> to an array, a write of \<^verbatim>\<open>__proto__\<close>, and a type named like a member
  of the class.
\<close>

datatype error = TypeError | NoScopeName | Unmodelled

text \<open>\<^verbatim>\<open>if (v)\<close>, \<^verbatim>\<open>!v\<close>, \<^verbatim>\<open>v || w\<close>: the values that count as true.\<close>

fun truthy :: "jsval \<Rightarrow> bool" where
  "truthy JUndefined = False"
| "truthy JNull = False"
| "truthy (JBool b) = b"
| "truthy (JStr s) = (s \<noteq> [])"
| "truthy (JArr xs) = True"
| "truthy (JObj kvs) = True"

text \<open>\<^verbatim>\<open>String(v)\<close>.\<close>

fun to_string :: "jsval \<Rightarrow> string" where
  "to_string JUndefined = ''undefined''"
| "to_string JNull = ''null''"
| "to_string (JBool b) = (if b then ''true'' else ''false'')"
| "to_string (JStr s) = s"
| "to_string (JArr xs) = join '','' xs"
| "to_string (JObj kvs) = ''[object Object]''"

text \<open>An element under \<^verbatim>\<open>Array.prototype.join\<close>: undefined and null give the empty string.\<close>

definition join_elem :: "jsval \<Rightarrow> string" where
  "join_elem v = (if v = JUndefined \<or> v = JNull then [] else to_string v)"

text \<open>
  \<^verbatim>\<open>v[k]\<close> on a value that is not undefined or null: an own property of an object, an
  index of a string or an array.
\<close>

fun own_prop :: "jsval \<Rightarrow> string \<Rightarrow> jsval" where
  "own_prop (JObj kvs) k = (case map_of kvs k of None \<Rightarrow> JUndefined | Some v \<Rightarrow> v)"
| "own_prop (JStr s) k =
     (case find (\<lambda>i. dec i = k) [0..<length s] of None \<Rightarrow> JUndefined | Some i \<Rightarrow> JStr [s ! i])"
| "own_prop (JArr xs) k =
     (case find (\<lambda>i. dec i = k) [0..<length xs] of None \<Rightarrow> JUndefined | Some i \<Rightarrow> JStr (xs ! i))"
| "own_prop v k = JUndefined"

subsection \<open>Objects and the store\<close>

text \<open>
  The options of \<^verbatim>\<open>time\<close> and the style records of the timers are objects that the
  instance and its caller share: \<^verbatim>\<open>this.__timers.start = options.start\<close> (line 247) makes
  the caller's object the start record, and the writes that follow go into that object. So
  these values are primitives or references into a store of objects. An object of the store
  is a plain object (its own properties in insertion order), an array of strings with the
  named properties added to it, or a \<^verbatim>\<open>Map\<close>, of which the store holds the named
  properties only (its entries are the field \<open>s_timers\<close> of the instance).
\<close>

type_synonym addr = nat

datatype hval =
    HUndefined
  | HNull
  | HBool bool
  | HStr string
  | HRef addr

datatype jsobj =
    Plain "(string \<times> hval) list"
  | Array "string list" "(string \<times> hval) list"
  | MapObj "(string \<times> hval) list"

type_synonym heap = "addr \<Rightarrow> jsobj"

fun is_true :: "hval \<Rightarrow> bool" where
  "is_true HUndefined = False"
| "is_true HNull = False"
| "is_true (HBool b) = b"
| "is_true (HStr s) = (s \<noteq> [])"
| "is_true (HRef a) = True"

text \<open>The named own properties of an object.\<close>

fun named :: "jsobj \<Rightarrow> (string \<times> hval) list" where
  "named (Plain ps) = ps"
| "named (Array xs ps) = ps"
| "named (MapObj ps) = ps"

definition named_prop :: "(string \<times> hval) list \<Rightarrow> string \<Rightarrow> hval" where
  "named_prop ps k = (case map_of ps k of None \<Rightarrow> HUndefined | Some v \<Rightarrow> v)"

text \<open>
  \<^verbatim>\<open>v[k]\<close> on a value that is not undefined or null (where the source throws, see
  \<open>read_prop\<close>): a named own property, or an index of an array or a string. The keys that
  the source reads are \<^verbatim>\<open>both\<close>, \<^verbatim>\<open>start\<close>, \<^verbatim>\<open>end\<close>, \<^verbatim>\<open>color\<close>, \<^verbatim>\<open>badge\<close>, \<^verbatim>\<open>text\<close>,
  \<^verbatim>\<open>time\<close> and the own keys that \<^verbatim>\<open>Object.keys\<close> returned, none of which names an
  inherited property.
\<close>

fun prop_of :: "heap \<Rightarrow> hval \<Rightarrow> string \<Rightarrow> hval" where
  "prop_of h (HRef a) k =
     (case h a of
        Plain ps \<Rightarrow> named_prop ps k
      | MapObj ps \<Rightarrow> named_prop ps k
      | Array xs ps \<Rightarrow>
          (case array_index k of
             None \<Rightarrow> named_prop ps k
           | Some i \<Rightarrow> if i < length xs then HStr (xs ! i) else HUndefined))"
| "prop_of h (HStr s) k =
     (case array_index k of
        None \<Rightarrow> HUndefined
      | Some i \<Rightarrow> if i < length s then HStr [s ! i] else HUndefined)"
| "prop_of h v k = HUndefined"

text \<open>Reading a property of undefined or null throws.\<close>

definition read_prop :: "heap \<Rightarrow> hval \<Rightarrow> string \<Rightarrow> error + hval" where
  "read_prop h v k = (if v = HUndefined \<or> v = HNull then Inl TypeError else Inr (prop_of h v k))"

text \<open>
  The order of the own keys of an ordinary object (ECMAScript, OrdinaryOwnPropertyKeys): the
  array indices in ascending order, then the other keys in the order of their creation.
\<close>

definition index_first :: "string list \<Rightarrow> string list" where
  "index_first ks =
     sort_key (\<lambda>k. case array_index k of None \<Rightarrow> 0 | Some i \<Rightarrow> i)
       (filter (\<lambda>k. array_index k \<noteq> None) ks)
     @ filter (\<lambda>k. array_index k = None) ks"

text \<open>\<^verbatim>\<open>Object.keys(v)\<close> of a value that is not undefined or null.\<close>

fun keys_of :: "heap \<Rightarrow> hval \<Rightarrow> string list" where
  "keys_of h (HRef a) =
     (case h a of
        Plain ps \<Rightarrow> index_first (map fst ps)
      | MapObj ps \<Rightarrow> index_first (map fst ps)
      | Array xs ps \<Rightarrow> map dec [0..<length xs] @ map fst ps)"
| "keys_of h (HStr s) = map dec [0..<length s]"
| "keys_of h v = []"

text \<open>
  \<^verbatim>\<open>v[k] = w\<close> in strict mode (line 1). An object takes the property, in place of the one
  it has under the key or after its other properties; undefined, null and the primitives
  throw. The model stops at a write that is more than that: of an index or of \<^verbatim>\<open>length\<close>
  to an array, and of \<^verbatim>\<open>__proto__\<close>.
\<close>

fun write_prop :: "heap \<Rightarrow> hval \<Rightarrow> string \<Rightarrow> hval \<Rightarrow> error + heap" where
  "write_prop h (HRef a) k w =
     (if k = ''__proto__'' then Inl Unmodelled
      else (case h a of
              Plain ps \<Rightarrow> Inr (h(a := Plain (AList.update k w ps)))
            | MapObj ps \<Rightarrow> Inr (h(a := MapObj (AList.update k w ps)))
            | Array xs ps \<Rightarrow>
                if array_index k \<noteq> None \<or> k = ''length'' then Inl Unmodelled
                else Inr (h(a := Array xs (AList.update k w ps)))))"
| "write_prop h v k w = Inl TypeError"

text \<open>
  \<^verbatim>\<open>String(v)\<close>, which is also the property key that \<^verbatim>\<open>chalk[v]\<close> looks up. No value of
  the store is a function, so an object with an own property \<^verbatim>\<open>toString\<close> cannot be
  converted and the conversion throws; an array with an own property \<^verbatim>\<open>join\<close> falls back
  to \<^verbatim>\<open>Object.prototype.toString\<close>.
\<close>

fun to_str :: "heap \<Rightarrow> hval \<Rightarrow> error + string" where
  "to_str h HUndefined = Inr ''undefined''"
| "to_str h HNull = Inr ''null''"
| "to_str h (HBool b) = Inr (if b then ''true'' else ''false'')"
| "to_str h (HStr s) = Inr s"
| "to_str h (HRef a) =
     (if ''toString'' \<in> fst ` set (named (h a)) then Inl TypeError
      else (case h a of
              Plain ps \<Rightarrow> Inr ''[object Object]''
            | MapObj ps \<Rightarrow> Inr ''[object Map]''
            | Array xs ps \<Rightarrow>
                Inr (if ''join'' \<in> fst ` set ps then ''[object Array]'' else join '','' xs)))"

text \<open>An element under \<^verbatim>\<open>Array.prototype.join\<close>: undefined and null give the empty string.\<close>

definition to_elem :: "heap \<Rightarrow> hval \<Rightarrow> error + string" where
  "to_elem h v = (if v = HUndefined \<or> v = HNull then Inr [] else to_str h v)"

text \<open>
  \<^verbatim>\<open>v.join(sep)\<close> for a value whose \<^verbatim>\<open>typeof\<close> is \<^verbatim>\<open>object\<close>: only an array has the
  method, and an own property \<^verbatim>\<open>join\<close> hides it.
\<close>

fun array_join :: "heap \<Rightarrow> hval \<Rightarrow> string \<Rightarrow> error + string" where
  "array_join h (HRef a) sep =
     (case h a of
        Array xs ps \<Rightarrow> if ''join'' \<in> fst ` set ps then Inl TypeError else Inr (join sep xs)
      | Plain ps \<Rightarrow> Inl TypeError
      | MapObj ps \<Rightarrow> Inl TypeError)"
| "array_join h v sep = Inl TypeError"

text \<open>Lines 215 to 232; the result \<^verbatim>\<open>null\<close> is \<open>None\<close>.\<close>

fun textType :: "hval \<Rightarrow> string option" where
  "textType (HStr s) = Some ''string''"
| "textType HNull = Some ''object''"
| "textType (HRef a) = Some ''object''"
| "textType (HBool b) = Some ''boolean''"
| "textType HUndefined = None"

subsection \<open>The environment and the instance\<close>

text \<open>An entry of the type registry \<^verbatim>\<open>this._types\<close>; a field that is \<open>None\<close> is undefined.\<close>

record type_desc =
  type_badge :: "string option"
  type_label :: "string option"
  type_color :: string

text \<open>
  The collaborators that are not in \<^verbatim>\<open>src/signale.js\<close> are parameters: \<^verbatim>\<open>chalk\<close> is the
  set of its style names (\<open>chalk_has\<close>: \<^verbatim>\<open>chalk[name]\<close> is a style) and the function that
  applies a chain of styles to a text (\<^verbatim>\<open>chalk.red.underline(t)\<close> is
  \<open>chalk_apply e [''red'', ''underline''] t\<close>), and the styles the source names itself
  (grey, green, red, yellow, underline) are taken to exist; \<^verbatim>\<open>figures.pointerSmall\<close> is a
  string; \<^verbatim>\<open>pkgConf.sync(namespace, {defaults})\<close> is the configuration it returns;
  \<open>toUpperCase\<close> is \<^verbatim>\<open>String.prototype.toUpperCase\<close>; \<open>builtin_types\<close> is the object that
  \<^verbatim>\<open>./types\<close> exports.
\<close>

type_synonym configuration = "string \<rightharpoonup> bool"

record env =
  chalk_has :: "string \<Rightarrow> bool"
  chalk_apply :: "string list \<Rightarrow> string \<Rightarrow> string"
  pointerSmall :: string
  packageConfiguration :: configuration
  toUpperCase :: "string \<Rightarrow> string"
  builtin_types :: "(string \<times> type_desc) list"

text \<open>
  What one call reads from outside: \<^verbatim>\<open>Date.now()\<close>, \<^verbatim>\<open>toLocaleDateString()\<close>,
  \<^verbatim>\<open>toLocaleTimeString()\<close> and the caller's file name (undefined when \<^verbatim>\<open>find\<close> finds
  none).
\<close>

record reading =
  rd_now :: int
  rd_date :: string
  rd_timestamp :: string
  rd_filename :: "string option"

datatype scope_name = ScopeStr string | ScopeArr "string list"

text \<open>
  An own property that the constructor gives the instance, other than its fields: the value
  of an option (line 29), which is no function, or the logger of a type (line 33).
\<close>

datatype member = Data | Logger string

text \<open>
  The instance. \<open>s_timers\<close> holds the entries of the \<^verbatim>\<open>Map\<close> \<^verbatim>\<open>this._timers\<close> in
  insertion order and \<open>s_timers_obj\<close> is the address of that \<^verbatim>\<open>Map\<close>;
  \<open>s_timer_styles\<close> is \<^verbatim>\<open>this.__timers\<close>, the object whose properties \<^verbatim>\<open>start\<close> and
  \<^verbatim>\<open>end\<close> are the style records; \<open>s_stream\<close> is what \<^verbatim>\<open>this._stream.write\<close> has
  received; \<open>s_own\<close> holds the own properties of lines 28 to 34; \<open>s_heap\<close> is the store.
\<close>

record signale =
  s_config :: configuration
  s_customTypes :: "(string \<times> type_desc) list"
  s_types :: "string \<rightharpoonup> type_desc"
  s_scopeName :: scope_name
  s_timers :: "(string \<times> int) list"
  s_timers_obj :: addr
  s_timer_styles :: hval
  s_longestLabel :: nat
  s_stream :: "string list"
  s_own :: "string \<rightharpoonup> member"
  s_heap :: heap

text \<open>\<^verbatim>\<open>this._config.name\<close> in a condition: an option that is missing counts as false.\<close>

definition flag :: "signale \<Rightarrow> string \<Rightarrow> bool" where
  "flag s name = (s_config s name = Some True)"

subsection \<open>Configuration (lines 81 to 83 and 200 to 202)\<close>

text \<open>
  \<^verbatim>\<open>Object.assign(this.packageConfiguration, configObj)\<close>: the getter returns a fresh object
  on every call, and the keys of \<open>configObj\<close> overwrite it.
\<close>

definition set_configuration :: "env \<Rightarrow> signale \<Rightarrow> configuration \<Rightarrow> signale" where
  "set_configuration e s configObj = s\<lparr>s_config := packageConfiguration e ++ configObj\<rparr>"

text \<open>The body of the method \<^verbatim>\<open>config\<close>.\<close>

definition config :: "env \<Rightarrow> signale \<Rightarrow> configuration \<Rightarrow> signale" where
  "config e s configObj = set_configuration e s configObj"

subsection \<open>Meta tokens (lines 93 to 132)\<close>

definition formatDate :: "reading \<Rightarrow> string" where
  "formatDate rd = ''['' @ rd_date rd @ '']''"

definition formatFilename :: "reading \<Rightarrow> string" where
  "formatFilename rd =
     ''['' @ (case rd_filename rd of None \<Rightarrow> ''undefined'' | Some f \<Rightarrow> f) @ '']''"

definition formatScopeName :: "signale \<Rightarrow> string" where
  "formatScopeName s =
     (case s_scopeName s of
        ScopeArr names \<Rightarrow>
          join '' '' (map (\<lambda>x. ''['' @ trim x @ '']'') (filter (\<lambda>x. length x \<noteq> 0) names))
      | ScopeStr name \<Rightarrow> ''['' @ name @ '']'')"

definition formatTimestamp :: "reading \<Rightarrow> string" where
  "formatTimestamp rd = ''['' @ rd_timestamp rd @ '']''"

fun scope_length :: "scope_name \<Rightarrow> nat" where
  "scope_length (ScopeStr name) = length name"
| "scope_length (ScopeArr names) = length names"

definition meta :: "env \<Rightarrow> reading \<Rightarrow> signale \<Rightarrow> string list" where
  "meta e rd s =
     (let m = (if flag s ''displayDate'' then [formatDate rd] else [])
            @ (if flag s ''displayTimestamp'' then [formatTimestamp rd] else [])
            @ (if flag s ''displayFilename'' then [formatFilename rd] else [])
            @ (if scope_length (s_scopeName s) \<noteq> 0 \<and> flag s ''displayScope''
               then [formatScopeName s] else [])
      in if length m \<noteq> 0 then map (chalk_apply e [''grey'']) (m @ [pointerSmall e]) else m)"

text \<open>Lines 89 to 91: the line and a newline go to the stream.\<close>

definition log :: "string \<Rightarrow> signale \<Rightarrow> signale" where
  "log message s = s\<lparr>s_stream := s_stream s @ [message @ [CHR 0x0A]]\<rparr>"

subsection \<open>Composing a line (lines 134 to 198)\<close>

text \<open>
  An argument of a logger is a value or an \<^verbatim>\<open>Error\<close>, of which the model keeps the text
  \<^verbatim>\<open>String(error)\<close> and the stack. The message of a structured argument is a value.
\<close>

datatype marg = Val jsval | Err string string

datatype payload = PVal jsval | PErr string string

fun arg_elem :: "marg \<Rightarrow> string" where
  "arg_elem (Val v) = join_elem v"
| "arg_elem (Err t st) = t"

text \<open>
  Lines 135 to 147: one argument that is an object and not null is an \<^verbatim>\<open>Error\<close> or is
  destructured into prefix, message and suffix (an array is an object without the three);
  anything else is joined with spaces. The result is the message, the prefix and the
  suffix.
\<close>

fun classify :: "marg list \<Rightarrow> payload \<times> jsval \<times> jsval" where
  "classify [Err t st] = (PErr t st, JUndefined, JUndefined)"
| "classify [Val (JObj kvs)] =
     (PVal (own_prop (JObj kvs) ''message''),
      own_prop (JObj kvs) ''prefix'', own_prop (JObj kvs) ''suffix'')"
| "classify [Val (JArr xs)] =
     (PVal (own_prop (JArr xs) ''message''),
      own_prop (JArr xs) ''prefix'', own_prop (JArr xs) ''suffix'')"
| "classify args = (PVal (JStr (join '' '' (map arg_elem args))), JUndefined, JUndefined)"

text \<open>
  Lines 151 to 157 and 189 to 195: a prefix or suffix that counts as true is pushed,
  underlined when the option \<open>u\<close> is set (\<^verbatim>\<open>chalk\<close> turns its argument into a string).
\<close>

definition affix_tokens :: "env \<Rightarrow> signale \<Rightarrow> string \<Rightarrow> jsval \<Rightarrow> string list" where
  "affix_tokens e s u v =
     (if truthy v
      then [if flag s u then chalk_apply e [''underline''] (to_string v) else join_elem v]
      else [])"

text \<open>
  Lines 159 to 161. \<open>None\<close> is a type that is undefined: reading \<^verbatim>\<open>type.badge\<close> throws.
  \<^verbatim>\<open>chalk[type.color]\<close> is called, which throws when it is no style.
\<close>

definition badge_tokens :: "env \<Rightarrow> signale \<Rightarrow> type_desc option \<Rightarrow> error + string list" where
  "badge_tokens e s ty =
     (if flag s ''displayBadge'' then
        (case ty of
           None \<Rightarrow> Inl TypeError
         | Some t \<Rightarrow>
             (case type_badge t of
                None \<Rightarrow> Inr []
              | Some b \<Rightarrow>
                  if b = [] then Inr []
                  else if chalk_has e (type_color t)
                    then Inr [chalk_apply e [type_color t] (padEnd b (length b + 1))]
                    else Inl TypeError))
      else Inr [])"

text \<open>Lines 163 to 170.\<close>

definition label_tokens :: "env \<Rightarrow> signale \<Rightarrow> type_desc option \<Rightarrow> error + string list" where
  "label_tokens e s ty =
     (if flag s ''displayLabel'' then
        (case ty of
           None \<Rightarrow> Inl TypeError
         | Some t \<Rightarrow>
             (case type_label t of
                None \<Rightarrow> Inr []
              | Some l \<Rightarrow>
                  if l = [] then Inr []
                  else
                    let label = (if flag s ''uppercaseLabel'' then toUpperCase e l else l) in
                    if \<not> chalk_has e (type_color t) then Inl TypeError
                    else if flag s ''underlineLabel''
                      then Inr [padEnd (chalk_apply e [type_color t, ''underline''] label)
                                  (s_longestLabel s + 20)]
                      else Inr [chalk_apply e [type_color t]
                                  (padEnd label (s_longestLabel s + 1))]))
      else Inr [])"

text \<open>
  Lines 172 to 195: an \<^verbatim>\<open>Error\<close> gives the first line of its stack and the other lines in
  grey, each after a newline, and the function returns without the suffix; any other
  message is pushed, underlined or as it is, and the suffix follows.
\<close>

definition message_tokens :: "env \<Rightarrow> signale \<Rightarrow> payload \<Rightarrow> jsval \<Rightarrow> string list" where
  "message_tokens e s msg sfx =
     (case msg of
        PErr t st \<Rightarrow>
          (case str_split (CHR 0x0A) st of
             [] \<Rightarrow> []
           | name # rest \<Rightarrow>
               [if flag s ''underlineMessage'' then chalk_apply e [''underline''] name else name,
                chalk_apply e [''grey''] (concat (map (\<lambda>l. CHR 0x0A # l) rest))])
      | PVal v \<Rightarrow>
          [if flag s ''underlineMessage'' then chalk_apply e [''underline''] (to_string v)
           else join_elem v]
          @ affix_tokens e s ''underlineSuffix'' sfx)"

definition buildSignale ::
  "env \<Rightarrow> reading \<Rightarrow> signale \<Rightarrow> type_desc option \<Rightarrow> marg list \<Rightarrow> error + string" where
  "buildSignale e rd s ty args =
     (case classify args of
        (msg, pfx, sfx) \<Rightarrow>
          (case badge_tokens e s ty of
             Inl err \<Rightarrow> Inl err
           | Inr badge \<Rightarrow>
               (case label_tokens e s ty of
                  Inl err \<Rightarrow> Inl err
                | Inr label \<Rightarrow>
                    Inr (join '' ''
                      (meta e rd s @ affix_tokens e s ''underlinePrefix'' pfx
                       @ badge @ label @ message_tokens e s msg sfx)))))"

text \<open>
  The property names that every plain object inherits from \<^verbatim>\<open>Object.prototype\<close>
  (ECMAScript, 20.1.3 and B.2.2).
\<close>

definition object_prototype_names :: "string list" where
  "object_prototype_names =
     [''constructor'', ''hasOwnProperty'', ''isPrototypeOf'', ''propertyIsEnumerable'',
      ''toLocaleString'', ''toString'', ''valueOf'', ''__proto__'', ''__defineGetter__'',
      ''__defineSetter__'', ''__lookupGetter__'', ''__lookupSetter__'']"

text \<open>
  \<^verbatim>\<open>this._types[type]\<close> (line 86). The registry is a plain object (line 24), so the lookup
  finds the own property of a registered name, else the property that the registry inherits
  under the name: a function, or \<^verbatim>\<open>Object.prototype\<close> itself, whose \<^verbatim>\<open>badge\<close>,
  \<^verbatim>\<open>label\<close> and \<^verbatim>\<open>color\<close> are undefined (\<^verbatim>\<open>chalk[undefined]\<close> looks up the key
  \<^verbatim>\<open>undefined\<close>). Under any other name it is undefined.
\<close>

definition lookup_type :: "signale \<Rightarrow> string \<Rightarrow> type_desc option" where
  "lookup_type s name =
     (case s_types s name of
        Some t \<Rightarrow> Some t
      | None \<Rightarrow>
          if name \<in> set object_prototype_names
          then Some \<lparr>type_badge = None, type_label = None, type_color = ''undefined''\<rparr>
          else None)"

text \<open>Lines 85 to 87. Nothing is written when composing throws.\<close>

definition logger ::
  "env \<Rightarrow> reading \<Rightarrow> signale \<Rightarrow> string \<Rightarrow> marg list \<Rightarrow> (error + unit) \<times> signale" where
  "logger e rd s type args =
     (case buildSignale e rd s (lookup_type s type) args of
        Inl err \<Rightarrow> (Inl err, s)
      | Inr line \<Rightarrow> (Inr (), log line s))"

subsection \<open>The constructor (lines 18 to 41) and \<^verbatim>\<open>scope\<close> (lines 204 to 209)\<close>

text \<open>
  The options of the constructor; a field that is \<open>None\<close> is a key that the options object
  does not have. \<open>o_timers\<close> is the value of \<^verbatim>\<open>options.timers\<close> and \<open>o_stream\<close> is the
  stream, as what it has received.
\<close>

record ctor_options =
  o_config :: "configuration option"
  o_types :: "(string \<times> type_desc) list option"
  o_scope :: "scope_name option"
  o_timers :: "hval option"
  o_stream :: "string list option"

text \<open>\<^verbatim>\<open>Object.keys(options)\<close>.\<close>

definition option_keys :: "ctor_options \<Rightarrow> string list" where
  "option_keys opts =
     (if o_config opts \<noteq> None then [''config''] else [])
     @ (if o_types opts \<noteq> None then [''types''] else [])
     @ (if o_scope opts \<noteq> None then [''scope''] else [])
     @ (if o_timers opts \<noteq> None then [''timers''] else [])
     @ (if o_stream opts \<noteq> None then [''stream''] else [])"

text \<open>\<^verbatim>\<open>Object.assign({}, types, this._customTypes)\<close> (line 24).\<close>

definition merge_types ::
  "(string \<times> type_desc) list \<Rightarrow> (string \<times> type_desc) list \<Rightarrow> (string \<times> type_desc) list" where
  "merge_types builtin custom = fold (\<lambda>kt. AList.update (fst kt) (snd kt)) custom builtin"

text \<open>Lines 36 to 40, from the length \<open>n\<close> that line 26 sets.\<close>

definition longest_label :: "nat \<Rightarrow> type_desc list \<Rightarrow> nat" where
  "longest_label n ts =
     fold (\<lambda>t m. case type_label t of
                   None \<Rightarrow> m
                 | Some l \<Rightarrow> if l \<noteq> [] \<and> length l > m then length l else m) ts n"

text \<open>
  The fields, methods and accessors of the class. Line 33 assigns the logger of a type to
  the property of the instance that has the name of the type; under one of these names
  that replaces a field or a method that the methods themselves use, or calls an accessor.
\<close>

definition class_members :: "string list" where
  "class_members =
     [''_config'', ''_customTypes'', ''_scopeName'', ''_timers'', ''__timers'', ''_types'',
      ''_stream'', ''_longestLabel'', ''constructor'', ''scopeName'', ''currentOptions'',
      ''date'', ''timestamp'', ''filename'', ''packageConfiguration'', ''configuration'',
      ''_logger'', ''_log'', ''_formatDate'', ''_formatFilename'', ''_formatScopeName'',
      ''_formatTimestamp'', ''_meta'', ''_buildSignale'', ''config'', ''scope'', ''unscope'',
      ''textType'', ''time'', ''timeEnd'']"

fun scope_truthy :: "scope_name \<Rightarrow> bool" where
  "scope_truthy (ScopeStr name) = (name \<noteq> [])"
| "scope_truthy (ScopeArr names) = True"

text \<open>
  Line 23, in a store where the addresses from \<open>n\<close> on are free: the object
  \<^verbatim>\<open>{start: {}, end: {}}\<close> is made when \<^verbatim>\<open>options.timers\<close> does not count as true.
\<close>

definition timer_styles :: "heap \<Rightarrow> addr \<Rightarrow> hval option \<Rightarrow> hval \<times> heap" where
  "timer_styles h n timers =
     (let made = (HRef (n + 2),
                  h(n := Plain [], n + 1 := Plain [],
                    n + 2 := Plain [(''start'', HRef n), (''end'', HRef (n + 1))]))
      in case timers of
           None \<Rightarrow> made
         | Some v \<Rightarrow> if is_true v then (v, h) else made)"

text \<open>
  The constructor, in the store \<open>h\<close> whose addresses from \<open>n\<close> on are free. The \<^verbatim>\<open>Map\<close> of
  line 22 gets the address \<open>n\<close>. Line 26 throws when \<^verbatim>\<open>./types\<close> has no type \<^verbatim>\<open>start\<close>
  with a label.
\<close>

definition new_signale :: "env \<Rightarrow> heap \<Rightarrow> addr \<Rightarrow> ctor_options \<Rightarrow> error + signale" where
  "new_signale e h n opts =
     (let custom = (case o_types opts of None \<Rightarrow> [] | Some ts \<Rightarrow> ts);
          types = merge_types (builtin_types e) custom
      in
      if filter (\<lambda>k. k \<in> set class_members) (map fst types) \<noteq> [] then Inl Unmodelled
      else
        (case map_of (builtin_types e) ''start'' of
           None \<Rightarrow> Inl TypeError
         | Some st \<Rightarrow>
             (case type_label st of
                None \<Rightarrow> Inl TypeError
              | Some l \<Rightarrow>
                  (case timer_styles (h(n := MapObj [])) (n + 1) (o_timers opts) of
                     (styles, h') \<Rightarrow>
                       Inr \<lparr>s_config =
                              packageConfiguration e
                              ++ (case o_config opts of None \<Rightarrow> Map.empty | Some c \<Rightarrow> c),
                            s_customTypes = custom,
                            s_types = map_of types,
                            s_scopeName =
                              (case o_scope opts of
                                 None \<Rightarrow> ScopeStr []
                               | Some sc \<Rightarrow> if scope_truthy sc then sc else ScopeStr []),
                            s_timers = [],
                            s_timers_obj = n,
                            s_timer_styles = styles,
                            s_longestLabel = longest_label (length l) (map snd types),
                            s_stream = (case o_stream opts of None \<Rightarrow> [] | Some w \<Rightarrow> w),
                            s_own =
                              (\<lambda>k. if k \<in> set (map fst types) then Some (Logger k)
                                   else if k \<in> set (option_keys opts) then Some Data
                                   else None),
                            s_heap = h'\<rparr>))))"

text \<open>Lines 47 to 54: the options that \<^verbatim>\<open>scope\<close> hands on; the timers are the \<^verbatim>\<open>Map\<close>.\<close>

definition currentOptions :: "signale \<Rightarrow> ctor_options" where
  "currentOptions s =
     \<lparr>o_config = Some (s_config s), o_types = Some (s_customTypes s), o_scope = None,
      o_timers = Some (HRef (s_timers_obj s)), o_stream = Some (s_stream s)\<rparr>"

text \<open>Lines 204 to 209: the new instance, made in the store of \<open>s\<close> at the free address \<open>n\<close>.\<close>

definition scope :: "env \<Rightarrow> signale \<Rightarrow> addr \<Rightarrow> string list \<Rightarrow> error + signale" where
  "scope e s n name =
     (if length name = 0 then Inl NoScopeName
      else new_signale e (s_heap s) n ((currentOptions s)\<lparr>o_scope := Some (ScopeArr name)\<rparr>))"

text \<open>
  The call \<^verbatim>\<open>instance.config(configObj)\<close>. The property \<^verbatim>\<open>config\<close> of the instance is
  the method of the class unless the instance has an own property of this name: the value of
  the option \<^verbatim>\<open>config\<close>, which is an object and cannot be called, or the logger of a type
  named \<^verbatim>\<open>config\<close>, which gets the object as its one argument and reads the message, the
  prefix and the suffix from it.
\<close>

definition config_arg :: "configuration \<Rightarrow> jsval" where
  "config_arg configObj =
     JObj (concat (map (\<lambda>k. case configObj k of None \<Rightarrow> [] | Some b \<Rightarrow> [(k, JBool b)])
                       [''prefix'', ''message'', ''suffix'']))"

definition call_config ::
  "env \<Rightarrow> reading \<Rightarrow> signale \<Rightarrow> configuration \<Rightarrow> (error + unit) \<times> signale" where
  "call_config e rd s configObj =
     (case s_own s ''config'' of
        None \<Rightarrow> (Inr (), config e s configObj)
      | Some Data \<Rightarrow> (Inl TypeError, s)
      | Some (Logger t) \<Rightarrow> logger e rd s t [Val (config_arg configObj)])"

subsection \<open>Timers (lines 234 to 315)\<close>

text \<open>A label is a string or is left out; \<^verbatim>\<open>!label\<close> holds without one and for \<^verbatim>\<open>''\<close>.\<close>

definition no_label :: "string option \<Rightarrow> bool" where
  "no_label label = (label = None \<or> label = Some [])"

text \<open>
  One assignment \<^verbatim>\<open>this.__timers.side[key] = src[key]\<close> of lines 242, 243, 255 and 256,
  where \<open>timers\<close> is \<^verbatim>\<open>this.__timers\<close>.
\<close>

definition assign_key :: "heap \<Rightarrow> hval \<Rightarrow> string \<Rightarrow> hval \<Rightarrow> string \<Rightarrow> error + heap" where
  "assign_key h timers side src key =
     (case read_prop h timers side of
        Inl err \<Rightarrow> Inl err
      | Inr record \<Rightarrow>
          (case read_prop h src key of
             Inl err \<Rightarrow> Inl err
           | Inr v \<Rightarrow> write_prop h record key v))"

text \<open>
  The \<^verbatim>\<open>forEach\<close> of lines 241 to 244 and 254 to 257: each pass writes the key to the start
  record, then to the end record. \<open>src\<close> is the expression \<^verbatim>\<open>options.both\<close> or
  \<^verbatim>\<open>options\<close>, evaluated in the store at each assignment. The result is the error thrown,
  if any, and the store as the writes done until then leave it.
\<close>

fun write_keys ::
  "(heap \<Rightarrow> hval) \<Rightarrow> string list \<Rightarrow> hval \<Rightarrow> heap \<Rightarrow> error option \<times> heap" where
  "write_keys src [] timers h = (None, h)"
| "write_keys src (key # keys) timers h =
     (case assign_key h timers ''start'' (src h) key of
        Inl err \<Rightarrow> (Some err, h)
      | Inr h1 \<Rightarrow>
          (case assign_key h1 timers ''end'' (src h1) key of
             Inl err \<Rightarrow> (Some err, h1)
           | Inr h2 \<Rightarrow> write_keys src keys timers h2))"

text \<open>
  Lines 246 to 252: \<^verbatim>\<open>if (options.side) { this.__timers.side = options.side; }\<close>, for the
  options object at the address \<open>opts\<close>.
\<close>

definition replace_record :: "heap \<Rightarrow> hval \<Rightarrow> addr \<Rightarrow> string \<Rightarrow> error + heap" where
  "replace_record h timers opts side =
     (if is_true (prop_of h (HRef opts) side)
      then write_prop h timers side (prop_of h (HRef opts) side)
      else Inr h)"

text \<open>Lines 239 to 259, for the options object at the address \<open>opts\<close>.\<close>

definition apply_options :: "heap \<Rightarrow> hval \<Rightarrow> addr \<Rightarrow> error option \<times> heap" where
  "apply_options h timers opts =
     (if is_true (prop_of h (HRef opts) ''both'')
      then write_keys (\<lambda>h'. prop_of h' (HRef opts) ''both'')
             (keys_of h (prop_of h (HRef opts) ''both'')) timers h
      else
        (case replace_record h timers opts ''start'' of
           Inl err \<Rightarrow> (Some err, h)
         | Inr h1 \<Rightarrow>
             (case replace_record h1 timers opts ''end'' of
                Inl err \<Rightarrow> (Some err, h1)
              | Inr h2 \<Rightarrow> write_keys (\<lambda>h'. HRef opts) (keys_of h2 (HRef opts)) timers h2)))"

text \<open>\<^verbatim>\<open>chalk[v] || chalk.fallback\<close>: the style name that is used.\<close>

definition chalk_or :: "env \<Rightarrow> heap \<Rightarrow> hval \<Rightarrow> string \<Rightarrow> error + string" where
  "chalk_or e h v fallback =
     (case to_str h v of
        Inl err \<Rightarrow> Inl err
      | Inr key \<Rightarrow> Inr (if chalk_has e key then key else fallback))"

text \<open>\<^verbatim>\<open>v || this._types.name.badge\<close>.\<close>

definition badge_or :: "signale \<Rightarrow> hval \<Rightarrow> string \<Rightarrow> error + hval" where
  "badge_or s v name =
     (if is_true v then Inr v
      else (case s_types s name of
              None \<Rightarrow> Inl TypeError
            | Some t \<Rightarrow> Inr (case type_badge t of None \<Rightarrow> HUndefined | Some b \<Rightarrow> HStr b)))"

text \<open>\<^verbatim>\<open>__badge.padEnd(4)\<close>: only a string has the method.\<close>

fun pad_badge :: "hval \<Rightarrow> error + string" where
  "pad_badge (HStr b) = Inr (padEnd b 4)"
| "pad_badge v = Inl TypeError"

text \<open>Line 268, as the string that the text gives in the line.\<close>

definition start_text :: "heap \<Rightarrow> hval \<Rightarrow> error + string" where
  "start_text h t =
     (if textType t = Some ''object'' then array_join h t '' ''
      else to_elem h (if is_true t then t else HStr ''Initialized timer...''))"

text \<open>Line 302; \<open>styled\<close> is \<^verbatim>\<open>__executionColor(executionTime)\<close>.\<close>

definition end_text :: "heap \<Rightarrow> hval \<Rightarrow> string \<Rightarrow> error + string" where
  "end_text h t styled =
     (if textType t = Some ''object''
      then (case array_join h t '','' of
              Inl err \<Rightarrow> Inl err
            | Inr joined \<Rightarrow> Inr (replace_first CHR '','' ('' '' @ styled @ '' '') joined))
      else to_elem h (if is_true t then t else HStr (''Timer run for: '' @ styled)))"

text \<open>Lines 262 to 277: the line that \<^verbatim>\<open>time\<close> writes.\<close>

definition start_report :: "env \<Rightarrow> reading \<Rightarrow> signale \<Rightarrow> string \<Rightarrow> error + string" where
  "start_report e rd s label =
     (let message = meta e rd s; h = s_heap s in
      case read_prop h (s_timer_styles s) ''start'' of
        Inl err \<Rightarrow> Inl err
      | Inr timerStart \<Rightarrow>
      (case read_prop h timerStart ''color'' of
        Inl err \<Rightarrow> Inl err
      | Inr c \<Rightarrow>
      (case chalk_or e h c ''green'' of
        Inl err \<Rightarrow> Inl err
      | Inr color \<Rightarrow>
      (case badge_or s (prop_of h timerStart ''badge'') ''start'' of
        Inl err \<Rightarrow> Inl err
      | Inr badge \<Rightarrow>
      (case start_text h (prop_of h timerStart ''text'') of
        Inl err \<Rightarrow> Inl err
      | Inr text \<Rightarrow>
      (case pad_badge badge of
        Inl err \<Rightarrow> Inl err
      | Inr padded \<Rightarrow>
          Inr (join '' ''
            (message @
             [chalk_apply e [color] padded,
              padEnd (chalk_apply e [color, ''underline''] label) (s_longestLabel s + 22),
              text]))))))))"

text \<open>
  Line 297, \<^verbatim>\<open>this.__timers.end || {}\<close>: the property \<open>k\<close> of the record \<open>en\<close>, or of the
  empty object when \<open>en\<close> does not count as true.
\<close>

definition end_prop :: "heap \<Rightarrow> hval \<Rightarrow> string \<Rightarrow> hval" where
  "end_prop h en k = (if is_true en then prop_of h en k else HUndefined)"

text \<open>Lines 294 to 312: the line that \<^verbatim>\<open>timeEnd\<close> writes.\<close>

definition end_report :: "env \<Rightarrow> reading \<Rightarrow> signale \<Rightarrow> string \<Rightarrow> int \<Rightarrow> error + string" where
  "end_report e rd s label span =
     (let message = meta e rd s; h = s_heap s in
      case read_prop h (s_timer_styles s) ''end'' of
        Inl err \<Rightarrow> Inl err
      | Inr en \<Rightarrow>
      (case chalk_or e h (end_prop h en ''color'') ''red'' of
        Inl err \<Rightarrow> Inl err
      | Inr color \<Rightarrow>
      (case badge_or s (end_prop h en ''badge'') ''pause'' of
        Inl err \<Rightarrow> Inl err
      | Inr badge \<Rightarrow>
      (case chalk_or e h (end_prop h en ''time'') ''yellow'' of
        Inl err \<Rightarrow> Inl err
      | Inr executionColor \<Rightarrow>
      (case end_text h (end_prop h en ''text'')
              (chalk_apply e [executionColor] (executionTime span)) of
        Inl err \<Rightarrow> Inl err
      | Inr text \<Rightarrow>
      (case pad_badge badge of
        Inl err \<Rightarrow> Inl err
      | Inr padded \<Rightarrow>
          Inr (join '' ''
            (message @
             [chalk_apply e [color] padded,
              padEnd (chalk_apply e [color, ''underline''] label) (s_longestLabel s + 22),
              text]))))))))"

text \<open>
  When a report line can be composed from a style record, read through \<open>p\<close>, and the badge
  of the type \<open>name\<close>: the colour can be turned into a property key; the badge of the
  record, or else that of the type, is a string; the text is not null, and if it is an
  object it is an array with its method \<^verbatim>\<open>join\<close>. \<^verbatim>\<open>time\<close> reads the start record as it
  is, which must not be undefined or null; \<^verbatim>\<open>timeEnd\<close> takes \<^verbatim>\<open>{}\<close> for an end record
  that counts as false, and turns the colour of the time into a key as well.
\<close>

fun is_string :: "hval \<Rightarrow> bool" where
  "is_string (HStr s) = True"
| "is_string v = False"

fun keyable :: "heap \<Rightarrow> hval \<Rightarrow> bool" where
  "keyable h (HRef a) = (''toString'' \<notin> fst ` set (named (h a)))"
| "keyable h v = True"

fun joinable :: "heap \<Rightarrow> hval \<Rightarrow> bool" where
  "joinable h (HRef a) =
     (case h a of
        Array xs ps \<Rightarrow> ''join'' \<notin> fst ` set ps
      | Plain ps \<Rightarrow> False
      | MapObj ps \<Rightarrow> False)"
| "joinable h v = False"

definition has_badge :: "signale \<Rightarrow> string \<Rightarrow> bool" where
  "has_badge s name = (case s_types s name of None \<Rightarrow> False | Some t \<Rightarrow> type_badge t \<noteq> None)"

definition renderable :: "signale \<Rightarrow> (string \<Rightarrow> hval) \<Rightarrow> string \<Rightarrow> bool" where
  "renderable s p name =
     (keyable (s_heap s) (p ''color'')
      \<and> (if is_true (p ''badge'') then is_string (p ''badge'') else has_badge s name)
      \<and> (if textType (p ''text'') = Some ''object'' then joinable (s_heap s) (p ''text'')
         else True))"

definition is_nullish :: "hval \<Rightarrow> bool" where
  "is_nullish v = (v = HUndefined \<or> v = HNull)"

text \<open>An object that is not an array: every write of a key other than \<^verbatim>\<open>__proto__\<close> adds to it.\<close>

fun is_record :: "heap \<Rightarrow> hval \<Rightarrow> bool" where
  "is_record h (HRef a) =
     (case h a of
        Plain ps \<Rightarrow> True
      | MapObj ps \<Rightarrow> True
      | Array xs ps \<Rightarrow> False)"
| "is_record h v = False"

definition start_renderable :: "signale \<Rightarrow> bool" where
  "start_renderable s =
     (\<not> is_nullish (s_timer_styles s)
      \<and> \<not> is_nullish (prop_of (s_heap s) (s_timer_styles s) ''start'')
      \<and> renderable s (prop_of (s_heap s) (prop_of (s_heap s) (s_timer_styles s) ''start''))
          ''start'')"

definition end_renderable :: "signale \<Rightarrow> bool" where
  "end_renderable s =
     (\<not> is_nullish (s_timer_styles s)
      \<and> renderable s (end_prop (s_heap s) (prop_of (s_heap s) (s_timer_styles s) ''end''))
          ''pause''
      \<and> keyable (s_heap s)
          (end_prop (s_heap s) (prop_of (s_heap s) (s_timer_styles s) ''end'') ''time''))"

text \<open>Lines 235 to 237: the label that \<^verbatim>\<open>time\<close> goes on with.\<close>

definition label_or_auto :: "signale \<Rightarrow> string option \<Rightarrow> string" where
  "label_or_auto s label =
     (case label of
        None \<Rightarrow> ''timer_'' @ dec (length (s_timers s))
      | Some l \<Rightarrow> if l = [] then ''timer_'' @ dec (length (s_timers s)) else l)"

text \<open>
  Lines 234 to 280, with the options object at an address or without options. The result
  is the label, or the error thrown.
\<close>

definition time ::
  "env \<Rightarrow> reading \<Rightarrow> signale \<Rightarrow> string option \<Rightarrow> addr option \<Rightarrow> (error + string) \<times> signale" where
  "time e rd s label options =
     (let label = label_or_auto s label in
      case (case options of
              None \<Rightarrow> (None, s_heap s)
            | Some opts \<Rightarrow> apply_options (s_heap s) (s_timer_styles s) opts) of
        (Some err, h) \<Rightarrow> (Inl err, s\<lparr>s_heap := h\<rparr>)
      | (None, h) \<Rightarrow>
          let s1 = s\<lparr>s_heap := h, s_timers := AList.update label (rd_now rd) (s_timers s)\<rparr>
          in (case start_report e rd s1 label of
                Inl err \<Rightarrow> (Inl err, s1)
              | Inr line \<Rightarrow> (Inr label, log line s1)))"

text \<open>Lines 12 to 15.\<close>

definition timeSpan :: "reading \<Rightarrow> int \<Rightarrow> int" where
  "timeSpan rd then' = rd_now rd - then'"

text \<open>
  Lines 284 to 287: \<^verbatim>\<open>reduceRight\<close> without an initial value starts from the last key and
  calls the function on each earlier key, from right to left. The accumulator is a key or
  \<^verbatim>\<open>null\<close> (\<open>None\<close>), and \<^verbatim>\<open>is(null)\<close> throws.
\<close>

definition is_auto :: "string \<Rightarrow> bool" where
  "is_auto x = str_includes x ''timer_''"

fun select_step :: "string option \<Rightarrow> string \<Rightarrow> error + string option" where
  "select_step None y = Inl TypeError"
| "select_step (Some x) y =
     Inr (if is_auto x then Some x else if is_auto y then Some y else None)"

fun reduce_keys :: "string option \<Rightarrow> string list \<Rightarrow> error + string option" where
  "reduce_keys acc [] = Inr acc"
| "reduce_keys acc (y # ys) =
     (case select_step acc y of Inl err \<Rightarrow> Inl err | Inr acc' \<Rightarrow> reduce_keys acc' ys)"

definition select_label :: "string list \<Rightarrow> error + string option" where
  "select_label keys =
     (case rev keys of
        [] \<Rightarrow> Inl TypeError
      | k # ks \<Rightarrow> reduce_keys (Some k) ks)"

text \<open>The object \<^verbatim>\<open>{label, span}\<close> that \<^verbatim>\<open>timeEnd\<close> returns.\<close>

record timer_result =
  r_label :: string
  r_span :: int

text \<open>
  The selection as the specification words it: the label inserted last among those that
  contain \<^verbatim>\<open>timer_\<close>, and none when no label contains it.
\<close>

definition spec_select_label :: "string list \<Rightarrow> string option" where
  "spec_select_label keys = (case filter is_auto (rev keys) of [] \<Rightarrow> None | k # ks \<Rightarrow> Some k)"

text \<open>Lines 283 to 288: the label that \<^verbatim>\<open>timeEnd\<close> goes on with; \<open>None\<close> is undefined or null.\<close>

definition chosen_label :: "signale \<Rightarrow> string option \<Rightarrow> error + string option" where
  "chosen_label s label =
     (if no_label label \<and> length (s_timers s) \<noteq> 0
      then select_label (map fst (s_timers s)) else Inr label)"

text \<open>Lines 282 to 315. \<open>Inr None\<close> is the return without a value.\<close>

definition timeEnd ::
  "env \<Rightarrow> reading \<Rightarrow> signale \<Rightarrow> string option \<Rightarrow> (error + timer_result option) \<times> signale" where
  "timeEnd e rd s label =
     (case chosen_label s label of
        Inl err \<Rightarrow> (Inl err, s)
      | Inr None \<Rightarrow> (Inr None, s)
      | Inr (Some l) \<Rightarrow>
          (case map_of (s_timers s) l of
             None \<Rightarrow> (Inr None, s)
           | Some t0 \<Rightarrow>
               let span = timeSpan rd t0;
                   s1 = s\<lparr>s_timers := AList.delete l (s_timers s)\<rparr>
               in (case end_report e rd s1 l span of
                     Inl err \<Rightarrow> (Inl err, s1)
                   | Inr line \<Rightarrow> (Inr (Some \<lparr>r_label = l, r_span = span\<rparr>), log line s1))))"

subsection \<open>Concrete instances\<close>

text \<open>
  An environment without colour support (\<^verbatim>\<open>chalk\<close> returns its text unchanged), with three
  types in \<^verbatim>\<open>./types\<close>, and the instance that \<^verbatim>\<open>new Signale()\<close> makes in an empty store:
  the \<^verbatim>\<open>Map\<close> at the address 0, the two style records at 1 and 2 and the object that
  holds them at 3.
\<close>

definition plain_env :: env where
  "plain_env =
     \<lparr>chalk_has = (\<lambda>c. c \<in> set [''grey'', ''green'', ''red'', ''yellow'', ''blue'', ''underline'']),
      chalk_apply = (\<lambda>styles t. t),
      pointerSmall = ''>'',
      packageConfiguration =
        [''displayScope'' \<mapsto> True, ''displayBadge'' \<mapsto> True, ''displayDate'' \<mapsto> False,
         ''displayLabel'' \<mapsto> True, ''underlineLabel'' \<mapsto> True],
      toUpperCase = map ascii_upper,
      builtin_types =
        [(''start'', \<lparr>type_badge = Some ''>'', type_label = Some ''start'', type_color = ''green''\<rparr>),
         (''pause'', \<lparr>type_badge = Some ''#'', type_label = Some ''pause'', type_color = ''yellow''\<rparr>),
         (''info'', \<lparr>type_badge = Some ''i'', type_label = Some ''info'', type_color = ''blue''\<rparr>)]\<rparr>"

definition empty_store :: heap where
  "empty_store = (\<lambda>a. Plain [])"

definition no_options :: ctor_options where
  "no_options =
     \<lparr>o_config = None, o_types = None, o_scope = None, o_timers = None, o_stream = None\<rparr>"

definition fresh :: signale where
  "fresh =
     \<lparr>s_config = packageConfiguration plain_env,
      s_customTypes = [],
      s_types = map_of (builtin_types plain_env),
      s_scopeName = ScopeStr [],
      s_timers = [],
      s_timers_obj = 0,
      s_timer_styles = HRef 3,
      s_longestLabel = 5,
      s_stream = [],
      s_own = (\<lambda>k. if k \<in> set [''start'', ''pause'', ''info''] then Some (Logger k) else None),
      s_heap = empty_store(0 := MapObj [], 3 := Plain [(''start'', HRef 1), (''end'', HRef 2)])\<rparr>"

definition at :: "int \<Rightarrow> reading" where
  "at t = \<lparr>rd_now = t, rd_date = ''2026-01-01'', rd_timestamp = ''12:00:00'',
           rd_filename = Some ''app.js''\<rparr>"

text \<open>The instance with one timer running under an automatic label.\<close>

definition running :: signale where
  "running = fresh\<lparr>s_timers := [(''timer_0'', 0)]\<rparr>"

text \<open>The instance after \<^verbatim>\<open>config({displayBadge: false, displayLabel: false})\<close>.\<close>

definition quiet :: signale where
  "quiet = config plain_env fresh [''displayBadge'' \<mapsto> False, ''displayLabel'' \<mapsto> False]"

text \<open>The instance after \<^verbatim>\<open>config({underlineMessage: true})\<close>.\<close>

definition underlined :: signale where
  "underlined = config plain_env fresh [''underlineMessage'' \<mapsto> True]"





text \<open>
  The instance that \<^verbatim>\<open>new Signale({config: {displayDate: true}})\<close> makes in an empty store.
\<close>

definition dated :: signale where
  "dated =
     fresh\<lparr>s_config := packageConfiguration plain_env ++ [''displayDate'' \<mapsto> True],
           s_own :=
             (\<lambda>k. if k \<in> set [''start'', ''pause'', ''info''] then Some (Logger k)
                  else if k \<in> set [''config''] then Some Data
                  else None)\<rparr>"

text \<open>
  An environment with colour support: \<^verbatim>\<open>chalk\<close> puts the escape sequences of a style
  around a text that is not empty, and closes the style before every newline of the text
  and opens it again after the newline.
\<close>

definition ansi_codes :: "string \<Rightarrow> string \<times> string" where
  "ansi_codes style =
     (case map_of
             [(''grey'', (CHR 0x1B # ''[90m'', CHR 0x1B # ''[39m'')),
              (''green'', (CHR 0x1B # ''[32m'', CHR 0x1B # ''[39m'')),
              (''red'', (CHR 0x1B # ''[31m'', CHR 0x1B # ''[39m'')),
              (''yellow'', (CHR 0x1B # ''[33m'', CHR 0x1B # ''[39m'')),
              (''blue'', (CHR 0x1B # ''[34m'', CHR 0x1B # ''[39m'')),
              (''underline'', (CHR 0x1B # ''[4m'', CHR 0x1B # ''[24m''))] style of
        None \<Rightarrow> ([], [])
      | Some codes \<Rightarrow> codes)"

definition ansi_wrap :: "string \<times> string \<Rightarrow> string \<Rightarrow> string" where
  "ansi_wrap codes t =
     fst codes
     @ concat (map (\<lambda>c. if c = CHR 0x0A then snd codes @ [c] @ fst codes else [c]) t)
     @ snd codes"

definition ansi_env :: env where
  "ansi_env =
     plain_env\<lparr>chalk_apply :=
       (\<lambda>styles t. if t = [] then [] else foldr (\<lambda>style. ansi_wrap (ansi_codes style)) styles t)\<rparr>"

section \<open>Properties\<close>

subsection \<open>The duration string\<close>

lemma rne_bounds:
  assumes "0 < b"
  shows "2 * (b * rne a b) \<le> 2 * a + b" and "2 * a \<le> 2 * (b * rne a b) + b"
proof -
  define q where "q = a div b"
  define r where "r = a mod b"
  have a: "a = b * q + r" by (simp add: q_def r_def)
  have r: "r < b" using assms by (simp add: r_def)
  have e: "rne a b = (if 2 * r < b then q else if b < 2 * r then q + 1 else if even q then q else q + 1)"
    by (simp add: rne_def q_def r_def Let_def)
  show "2 * (b * rne a b) \<le> 2 * a + b"
    unfolding e using r by (auto simp: a algebra_simps)
  show "2 * a \<le> 2 * (b * rne a b) + b"
    unfolding e using r by (auto simp: a algebra_simps)
qed

lemma bitlen_le: "n < 2 ^ k \<Longrightarrow> bitlen n \<le> k"
proof (induction n arbitrary: k rule: bitlen.induct)
  case (1 n)
  show ?case
  proof (cases "n = 0")
    case True
    then show ?thesis by (simp add: bitlen.simps)
  next
    case False
    then obtain j where k: "k = Suc j" using "1.prems" by (cases k) auto
    have "n div 2 < 2 ^ j" using "1.prems" k by auto
    then have "bitlen (n div 2) \<le> j" using "1.IH" False by blast
    then show ?thesis using False k by (simp add: bitlen.simps)
  qed
qed

lemma shift_ge_9:
  assumes "n < 2 ^ 53"
  shows "9 \<le> 53 - bitlen (n div 1000)"
proof -
  have "n div 1000 < 2 ^ 44" using assms by simp
  then have "bitlen (n div 1000) \<le> 44" by (rule bitlen_le)
  then show ?thesis by simp
qed

lemma hundredths_bounds:
  assumes "n < 2 ^ 53"
  shows "10 * hundredths (div1000 n) \<le> n + 5" and "n \<le> 10 * hundredths (div1000 n) + 5"
proof -
  define s where "s = 53 - bitlen (n div 1000)"
  define m where "m = rne (n * 2 ^ s) 1000"
  define k where "k = hundredths (div1000 n)"
  define p :: nat where "p = 2 ^ s"
  have k: "k = (200 * m + p) div (2 * p)"
    by (simp add: k_def hundredths_def div1000_def s_def m_def p_def Let_def)
  have "9 \<le> s" unfolding s_def using assms by (rule shift_ge_9)
  then have "(2::nat) ^ 9 \<le> 2 ^ s" by (rule power_increasing) simp
  then have p: "512 \<le> p" by (simp add: p_def)
  have m1: "2 * (1000 * m) \<le> 2 * (n * p) + 1000" and m2: "2 * (n * p) \<le> 2 * (1000 * m) + 1000"
    using rne_bounds[of 1000 "n * p"] by (simp_all add: m_def p_def)
  have k1: "(2 * p) * k \<le> 200 * m + p"
    unfolding k by (rule times_div_less_eq_dividend)
  have k2: "200 * m + p < (2 * p) * (k + 1)"
    unfolding k using p dividend_less_times_div[of "2 * p" "200 * m + p"] by simp
  have "10 * k * p < (n + 6) * p"
    using k1 m1 p by (simp add: algebra_simps)
  then have "10 * k < n + 6" by simp
  then show "10 * hundredths (div1000 n) \<le> n + 5" by (simp add: k_def)
  have "(n + 5) * p < (10 * k + 11) * p"
    using k2 m2 p by (simp add: algebra_simps)
  then have "n + 5 < 10 * k + 11" by simp
  then show "n \<le> 10 * hundredths (div1000 n) + 5" by (simp add: k_def)
qed

lemma dec_last_two:
  assumes "100 \<le> k"
  shows "dec k = dec (k div 100) @ [digit (k div 10 mod 10), digit (k mod 10)]"
proof -
  have "dec k = dec (k div 10) @ [digit (k mod 10)]"
    using assms by (subst dec.simps) simp
  moreover have "dec (k div 10) = dec (k div 10 div 10) @ [digit (k div 10 mod 10)]"
    using assms by (subst dec.simps) simp
  moreover have "k div 10 div 10 = k div 100"
    by (simp add: div_mult2_eq[symmetric])
  ultimately show ?thesis by simp
qed

lemma dec_not_Nil: "dec n \<noteq> []"
  by (subst dec.simps) simp

lemma toFixed2_two_places:
  assumes "100 \<le> hundredths x"
  shows "toFixed2 x = dec (hundredths x div 100) @ ''.''
           @ [digit (hundredths x div 10 mod 10), digit (hundredths x mod 10)]"
proof -
  have "Suc 0 \<le> length (dec (hundredths x div 100))"
    using dec_not_Nil[of "hundredths x div 100"]
    by (cases "dec (hundredths x div 100)") simp_all
  then show ?thesis
    unfolding toFixed2_def Let_def dec_last_two[OF assms] by simp
qed

text \<open>
  C3. For a span \<open>n\<close> that is a non-negative integer (below \<open>2^53\<close>, as every difference of
  two clock readings is), the duration is the decimal \<open>n\<close> followed by \<^verbatim>\<open>ms\<close> when
  \<open>n < 1000\<close>; otherwise it is an integer part, a point, exactly two decimals and \<^verbatim>\<open>s\<close>,
  where the number \<open>k\<close> of hundredths shown is \<open>n / 10\<close> rounded to a nearest integer.
  999 gives \<^verbatim>\<open>999ms\<close>, 1000 gives \<^verbatim>\<open>1.00s\<close> and 2500 gives \<^verbatim>\<open>2.50s\<close>.
\<close>

theorem executionTime_format:
  fixes n :: nat
  assumes "n < 2 ^ 53"
  shows "(n < 1000 \<longrightarrow> executionTime (int n) = dec n @ ''ms'')
       \<and> (1000 \<le> n \<longrightarrow>
            (let k = hundredths (div1000 n) in
               executionTime (int n)
                 = dec (k div 100) @ ''.'' @ [digit (k div 10 mod 10), digit (k mod 10)] @ ''s''
               \<and> 10 * k \<le> n + 5 \<and> n \<le> 10 * k + 5))
       \<and> executionTime 999 = ''999ms''
       \<and> executionTime 1000 = ''1.00s''
       \<and> executionTime 2500 = ''2.50s''"
proof (intro conjI impI)
  assume "n < 1000"
  then show "executionTime (int n) = dec n @ ''ms''"
    by (simp add: executionTime_def num_str_def)
next
  assume n: "1000 \<le> n"
  define k where "k = hundredths (div1000 n)"
  have b: "10 * k \<le> n + 5" "n \<le> 10 * k + 5"
    unfolding k_def using hundredths_bounds[OF assms] by simp_all
  then have "100 \<le> k" using n by simp
  then have "toFixed2 (div1000 n)
      = dec (k div 100) @ ''.'' @ [digit (k div 10 mod 10), digit (k mod 10)]"
    unfolding k_def by (rule toFixed2_two_places)
  then have "executionTime (int n)
      = dec (k div 100) @ ''.'' @ [digit (k div 10 mod 10), digit (k mod 10)] @ ''s''"
    using n by (simp add: executionTime_def)
  with b show "let k = hundredths (div1000 n) in
               executionTime (int n)
                 = dec (k div 100) @ ''.'' @ [digit (k div 10 mod 10), digit (k mod 10)] @ ''s''
               \<and> 10 * k \<le> n + 5 \<and> n \<le> 10 * k + 5"
    by (simp add: k_def Let_def)
next
  show "executionTime 999 = ''999ms''"
    by (simp add: executionTime_def num_str_def dec.simps digit_def)
next
  show "executionTime 1000 = ''1.00s''"
    by (simp add: executionTime_def toFixed2_def hundredths_def div1000_def rne_def
        bitlen.simps Let_def dec.simps digit_def)
next
  show "executionTime 2500 = ''2.50s''"
    by (simp add: executionTime_def toFixed2_def hundredths_def div1000_def rne_def
        bitlen.simps Let_def dec.simps digit_def)
qed

theorem executionTime_format_witness:
  "(123456 :: nat) < 2 ^ 53 \<and> executionTime 123456 = ''123.46s'' \<and> executionTime 42 = ''42ms''"
proof -
  have h: "(123456 :: nat) < 2 ^ 53" by simp
  have k: "hundredths (div1000 123456) = 12346"
    by (simp add: hundredths_def div1000_def rne_def bitlen.simps Let_def)
  have h2: "(42 :: nat) < 2 ^ 53" by simp
  show ?thesis
    using executionTime_format[OF h] executionTime_format[OF h2] h
    by (simp add: k dec.simps digit_def)
qed

subsection \<open>What the timer calls do to the timer map\<close>

lemma dec_0: "dec 0 = ''0''"
  by (simp add: dec.simps digit_def)

lemma dec_1: "dec (Suc 0) = ''1''"
  by (simp add: dec.simps digit_def)

lemma label_or_auto_Some [simp]: "l \<noteq> [] \<Longrightarrow> label_or_auto s (Some l) = l"
  by (simp add: label_or_auto_def)

lemma label_or_auto_None [simp]: "label_or_auto s None = ''timer_'' @ dec (length (s_timers s))"
  by (simp add: label_or_auto_def)

lemma time_without_options:
  "time e rd s label None =
     (let l = label_or_auto s label;
          s1 = s\<lparr>s_timers := AList.update l (rd_now rd) (s_timers s)\<rparr>
      in case start_report e rd s1 l of
           Inl err \<Rightarrow> (Inl err, s1)
         | Inr line \<Rightarrow> (Inr l, log line s1))"
  by (simp add: time_def Let_def split: sum.splits)

lemma time_timers:
  "s_timers (snd (time e rd s label options)) = s_timers s
   \<or> s_timers (snd (time e rd s label options))
       = AList.update (label_or_auto s label) (rd_now rd) (s_timers s)"
  by (simp add: time_def Let_def log_def split: prod.splits option.splits sum.splits)

lemma time_returns:
  assumes "time e rd s label options = (Inr l, s')"
  shows "l = label_or_auto s label"
    and "s_timers s' = AList.update l (rd_now rd) (s_timers s)"
  using assms
  by (auto simp: time_def Let_def log_def split: prod.splits option.splits sum.splits)

lemma time_keeps:
  "s_types (snd (time e rd s label options)) = s_types s"
  "s_timer_styles (snd (time e rd s label options)) = s_timer_styles s"
  by (simp_all add: time_def Let_def log_def split: prod.splits option.splits sum.splits)

lemma time_without_options_keeps_store:
  "s_heap (snd (time e rd s label None)) = s_heap s"
  by (simp add: time_without_options Let_def log_def split: sum.splits)

lemma timeEnd_chosen:
  "timeEnd e rd s label =
     (case chosen_label s label of
        Inl err \<Rightarrow> (Inl err, s)
      | Inr None \<Rightarrow> (Inr None, s)
      | Inr (Some l) \<Rightarrow>
          (case map_of (s_timers s) l of
             None \<Rightarrow> (Inr None, s)
           | Some t0 \<Rightarrow>
               (let s1 = s\<lparr>s_timers := AList.delete l (s_timers s)\<rparr> in
                case end_report e rd s1 l (rd_now rd - t0) of
                  Inl err \<Rightarrow> (Inl err, s1)
                | Inr line \<Rightarrow>
                    (Inr (Some \<lparr>r_label = l, r_span = rd_now rd - t0\<rparr>), log line s1))))"
  by (simp add: timeEnd_def timeSpan_def Let_def split: option.splits sum.splits)

lemma chosen_label_Some: "l \<noteq> [] \<Longrightarrow> chosen_label s (Some l) = Inr (Some l)"
  by (simp add: chosen_label_def no_label_def)

lemma timeEnd_labelled:
  assumes "l \<noteq> []"
  shows "timeEnd e rd s (Some l) =
     (case map_of (s_timers s) l of
        None \<Rightarrow> (Inr None, s)
      | Some t0 \<Rightarrow>
          (let s1 = s\<lparr>s_timers := AList.delete l (s_timers s)\<rparr> in
           case end_report e rd s1 l (rd_now rd - t0) of
             Inl err \<Rightarrow> (Inl err, s1)
           | Inr line \<Rightarrow> (Inr (Some \<lparr>r_label = l, r_span = rd_now rd - t0\<rparr>), log line s1)))"
  by (simp add: timeEnd_chosen chosen_label_Some[OF assms])

lemma timeEnd_labelled_timers:
  assumes "l \<noteq> []"
  shows "s_timers (snd (timeEnd e rd s (Some l))) = AList.delete l (s_timers s)"
proof (cases "map_of (s_timers s) l")
  case None
  then have "l \<notin> fst ` set (s_timers s)" by (simp add: map_of_eq_None_iff)
  then show ?thesis using None by (simp add: timeEnd_labelled[OF assms])
next
  case (Some a)
  then show ?thesis
    by (simp add: timeEnd_labelled[OF assms] Let_def log_def split: sum.splits)
qed

lemma timeEnd_keeps:
  "s_types (snd (timeEnd e rd s label)) = s_types s"
  "s_timer_styles (snd (timeEnd e rd s label)) = s_timer_styles s"
  "s_heap (snd (timeEnd e rd s label)) = s_heap s"
  by (simp_all add: timeEnd_chosen Let_def log_def split: option.splits sum.splits)

subsection \<open>When the timer calls return\<close>

text \<open>
  The report line of \<^verbatim>\<open>time\<close> is composed exactly when the start record is renderable,
  and that of \<^verbatim>\<open>timeEnd\<close> exactly when the end record is; the calls return then.
\<close>

lemma to_str_iff: "(\<exists>x. to_str h v = Inr x) \<longleftrightarrow> keyable h v"
  by (cases v) (auto split: jsobj.splits)

lemma chalk_or_iff: "(\<exists>x. chalk_or e h v fallback = Inr x) \<longleftrightarrow> keyable h v"
  using to_str_iff[of h v] by (auto simp: chalk_or_def split: sum.splits)

lemma array_join_iff: "(\<exists>x. array_join h v sep = Inr x) \<longleftrightarrow> joinable h v"
  by (cases v) (auto split: jsobj.splits)

lemma start_text_iff:
  "(\<exists>x. start_text h t = Inr x)
     \<longleftrightarrow> (if textType t = Some ''object'' then joinable h t else True)"
  using array_join_iff[of h t "'' ''"] by (cases t) (auto simp: start_text_def to_elem_def)

lemma end_text_iff:
  "(\<exists>x. end_text h t tm = Inr x)
     \<longleftrightarrow> (if textType t = Some ''object'' then joinable h t else True)"
  using array_join_iff[of h t "'',''"]
  by (cases t) (auto simp: end_text_def to_elem_def split: sum.splits)

lemma badge_iff:
  "(\<exists>b. badge_or s v name = Inr b \<and> (\<exists>p. pad_badge b = Inr p))
     \<longleftrightarrow> (if is_true v then is_string v else has_badge s name)"
  by (cases v) (auto simp: badge_or_def has_badge_def split: option.splits)

lemma start_report_iff:
  "(\<exists>line. start_report e rd s l = Inr line) \<longleftrightarrow> start_renderable s"
proof -
  let ?h = "s_heap s"
  let ?st = "prop_of ?h (s_timer_styles s) ''start''"
  have "(\<exists>line. start_report e rd s l = Inr line)
      \<longleftrightarrow> (\<not> is_nullish (s_timer_styles s) \<and> \<not> is_nullish ?st
           \<and> (\<exists>c. chalk_or e ?h (prop_of ?h ?st ''color'') ''green'' = Inr c)
           \<and> (\<exists>b. badge_or s (prop_of ?h ?st ''badge'') ''start'' = Inr b \<and> (\<exists>p. pad_badge b = Inr p))
           \<and> (\<exists>x. start_text ?h (prop_of ?h ?st ''text'') = Inr x))"
    by (auto simp: start_report_def read_prop_def is_nullish_def Let_def split: sum.splits)
  then show ?thesis
    unfolding start_renderable_def renderable_def badge_iff start_text_iff chalk_or_iff by simp
qed

lemma end_report_iff:
  "(\<exists>line. end_report e rd s l span = Inr line) \<longleftrightarrow> end_renderable s"
proof -
  let ?h = "s_heap s"
  let ?p = "end_prop ?h (prop_of ?h (s_timer_styles s) ''end'')"
  have "(\<exists>line. end_report e rd s l span = Inr line)
      \<longleftrightarrow> (\<not> is_nullish (s_timer_styles s)
           \<and> (\<exists>c. chalk_or e ?h (?p ''color'') ''red'' = Inr c)
           \<and> (\<exists>b. badge_or s (?p ''badge'') ''pause'' = Inr b \<and> (\<exists>p. pad_badge b = Inr p))
           \<and> (\<exists>c. chalk_or e ?h (?p ''time'') ''yellow'' = Inr c
                  \<and> (\<exists>x. end_text ?h (?p ''text'') (chalk_apply e [c] (executionTime span))
                           = Inr x)))"
    by (auto simp: end_report_def read_prop_def is_nullish_def Let_def split: sum.splits)
  then show ?thesis
    unfolding end_renderable_def renderable_def badge_iff end_text_iff
    using chalk_or_iff[of e ?h "?p ''color''" "''red''"]
      chalk_or_iff[of e ?h "?p ''time''" "''yellow''"]
    by auto
qed

lemma start_renderable_cong:
  "s_timer_styles s' = s_timer_styles s \<Longrightarrow> s_heap s' = s_heap s \<Longrightarrow> s_types s' = s_types s
     \<Longrightarrow> start_renderable s' = start_renderable s"
  by (simp add: start_renderable_def renderable_def has_badge_def)

lemma end_renderable_cong:
  "s_timer_styles s' = s_timer_styles s \<Longrightarrow> s_heap s' = s_heap s \<Longrightarrow> s_types s' = s_types s
     \<Longrightarrow> end_renderable s' = end_renderable s"
  by (simp add: end_renderable_def renderable_def has_badge_def)

lemma time_renderable:
  assumes "start_renderable s"
  shows "\<exists>line. time e rd s label None
           = (Inr (label_or_auto s label),
              log line (s\<lparr>s_timers := AList.update (label_or_auto s label) (rd_now rd) (s_timers s)\<rparr>))"
proof -
  define s1 where
    "s1 = s\<lparr>s_timers := AList.update (label_or_auto s label) (rd_now rd) (s_timers s)\<rparr>"
  have "start_renderable s1"
    using assms start_renderable_cong[of s1 s] by (simp add: s1_def)
  then obtain line where "start_report e rd s1 (label_or_auto s label) = Inr line"
    using start_report_iff[of e rd s1] by blast
  then show ?thesis
    by (auto simp: time_without_options Let_def s1_def)
qed

lemma timeEnd_renderable:
  assumes "end_renderable s" and "chosen_label s label = Inr (Some l)"
    and "map_of (s_timers s) l = Some t0"
  shows "\<exists>line. timeEnd e rd s label
           = (Inr (Some \<lparr>r_label = l, r_span = rd_now rd - t0\<rparr>),
              log line (s\<lparr>s_timers := AList.delete l (s_timers s)\<rparr>))"
proof -
  define s1 where "s1 = s\<lparr>s_timers := AList.delete l (s_timers s)\<rparr>"
  have "end_renderable s1"
    using assms(1) end_renderable_cong[of s1 s] by (simp add: s1_def)
  then obtain line where "end_report e rd s1 l (rd_now rd - t0) = Inr line"
    using end_report_iff[of e rd s1] by blast
  then show ?thesis
    using assms(2,3) by (auto simp: timeEnd_chosen Let_def s1_def)
qed

lemma log_fields [simp]:
  "s_timers (log line s) = s_timers s" "s_types (log line s) = s_types s"
  "s_timer_styles (log line s) = s_timer_styles s" "s_heap (log line s) = s_heap s"
  by (simp_all add: log_def)

lemma fresh_fields:
  "s_timers fresh = []" "s_timer_styles fresh = HRef 3"
  "s_heap fresh = empty_store(0 := MapObj [], 3 := Plain [(''start'', HRef 1), (''end'', HRef 2)])"
  by (simp_all add: fresh_def)

lemma running_fields:
  "s_timers running = [(''timer_0'', 0)]" "s_timer_styles running = s_timer_styles fresh"
  "s_heap running = s_heap fresh" "s_types running = s_types fresh"
  by (simp_all add: running_def fresh_def)

lemma fresh_styles_renderable:
  assumes "s_types s = s_types fresh" and "s_timer_styles s = s_timer_styles fresh"
    and "s_heap s = s_heap fresh"
  shows "start_renderable s" and "end_renderable s"
  using assms
  by (simp_all add: start_renderable_def end_renderable_def renderable_def has_badge_def
      is_nullish_def end_prop_def named_prop_def fresh_def empty_store_def plain_env_def)

lemma fresh_renderable: "start_renderable fresh" "end_renderable fresh"
  by (simp_all add: fresh_styles_renderable)

lemma time_fresh_styles:
  assumes "s_types s = s_types fresh" and "s_timer_styles s = s_timer_styles fresh"
    and "s_heap s = s_heap fresh"
  shows "time e rd s label None = (Inr (label_or_auto s label), snd (time e rd s label None))"
  using time_renderable[OF fresh_styles_renderable(1)[OF assms], of e rd label] by auto

lemma timeEnd_fresh_styles:
  assumes "s_types s = s_types fresh" and "s_timer_styles s = s_timer_styles fresh"
    and "s_heap s = s_heap fresh"
    and "chosen_label s label = Inr (Some l)" and "map_of (s_timers s) l = Some t0"
  shows "fst (timeEnd e rd s label) = Inr (Some \<lparr>r_label = l, r_span = rd_now rd - t0\<rparr>)"
    and "s_timers (snd (timeEnd e rd s label)) = AList.delete l (s_timers s)"
  using timeEnd_renderable[OF fresh_styles_renderable(2)[OF assms(1,2,3)] assms(4,5), of e rd]
  by auto

text \<open>The instance \<open>fresh\<close> is the one that the constructor makes.\<close>

lemma fresh_constructed: "new_signale plain_env empty_store 0 no_options = Inr fresh"
  by (simp add: new_signale_def no_options_def plain_env_def fresh_def merge_types_def
      class_members_def timer_styles_def longest_label_def option_keys_def Let_def fun_eq_iff
      empty_store_def)

subsection \<open>Selection without a label\<close>

lemma reduce_keys_found: "is_auto x \<Longrightarrow> reduce_keys (Some x) ys = Inr (Some x)"
  by (induction ys) simp_all

lemma reduce_keys_null: "reduce_keys None ys = (if ys = [] then Inr None else Inl TypeError)"
  by (cases ys) simp_all

lemma select_single: "select_label [k] = Inr (Some k)"
  by (simp add: select_label_def)

text \<open>
  With two keys or more the reduction looks at the last two only: the last one if it
  contains \<^verbatim>\<open>timer_\<close>, else the one before it if that one does; else the accumulator is
  null, which is the result for two keys and throws at the third.
\<close>

lemma select_label_last_two:
  "select_label (ks @ [a, b]) =
     (if is_auto b then Inr (Some b)
      else if is_auto a then Inr (Some a)
      else if ks = [] then Inr None else Inl TypeError)"
  by (simp add: select_label_def reduce_keys_found reduce_keys_null)

text \<open>The source and the specification agree when one of the last two keys qualifies.\<close>

lemma select_label_agrees:
  "is_auto b \<or> is_auto a \<Longrightarrow>
     select_label (ks @ [a, b]) = Inr (spec_select_label (ks @ [a, b]))"
  by (auto simp: select_label_last_two spec_select_label_def)

lemma is_auto_examples:
  "is_auto ''timer_0''" "\<not> is_auto ''a''" "\<not> is_auto ''b''" "\<not> is_auto ''custom''"
  by (simp_all add: is_auto_def)

text \<open>
  C2. \<^verbatim>\<open>timeEnd()\<close> without a label is to select the label inserted last among those that
  contain \<^verbatim>\<open>timer_\<close>, whatever was inserted after it, and no label when none contains
  it. With the timers \<^verbatim>\<open>timer_0\<close>, \<^verbatim>\<open>a\<close>, \<^verbatim>\<open>b\<close> inserted in this order the source throws
  a \<^verbatim>\<open>TypeError\<close> instead of selecting \<^verbatim>\<open>timer_0\<close>, and with the single timer
  \<^verbatim>\<open>custom\<close> it selects \<^verbatim>\<open>custom\<close> instead of no label.
\<close>

theorem timeEnd_without_label_selection:
  "spec_select_label [''timer_0'', ''a'', ''b''] = Some ''timer_0''
   \<and> select_label [''timer_0'', ''a'', ''b''] = Inl TypeError
   \<and> timeEnd e rd (s\<lparr>s_timers := [(''timer_0'', t0), (''a'', t1), (''b'', t2)]\<rparr>) None
       = (Inl TypeError, s\<lparr>s_timers := [(''timer_0'', t0), (''a'', t1), (''b'', t2)]\<rparr>)
   \<and> spec_select_label [''custom''] = None
   \<and> select_label [''custom''] = Inr (Some ''custom'')"
proof -
  have 1: "select_label [''timer_0'', ''a'', ''b''] = Inl TypeError"
    using select_label_last_two[of "[''timer_0'']" "''a''" "''b''"]
    by (simp add: is_auto_examples)
  have 2: "timeEnd e rd (s\<lparr>s_timers := [(''timer_0'', t0), (''a'', t1), (''b'', t2)]\<rparr>) None
       = (Inl TypeError, s\<lparr>s_timers := [(''timer_0'', t0), (''a'', t1), (''b'', t2)]\<rparr>)"
    by (simp add: timeEnd_def chosen_label_def no_label_def 1)
  show ?thesis
    by (simp add: 1 2 spec_select_label_def is_auto_examples select_single)
qed

subsection \<open>Ending a timer that is not tracked\<close>

text \<open>
  C8. For every label that is not the empty string and is not tracked, \<^verbatim>\<open>timeEnd(label)\<close>
  returns without a value and leaves the instance as it was: the timer map is unchanged
  and nothing is written.
\<close>

theorem timeEnd_untracked_label_noop:
  "l \<noteq> [] \<Longrightarrow> map_of (s_timers s) l = None \<Longrightarrow> timeEnd e rd s (Some l) = (Inr None, s)"
  by (simp add: timeEnd_labelled)

theorem timeEnd_untracked_label_noop_witness:
  "''x'' \<noteq> [] \<and> map_of (s_timers running) ''x'' = None
   \<and> timeEnd plain_env (at 5) running (Some ''x'') = (Inr None, running)"
proof -
  have x: "''x'' \<noteq> []" by simp
  have m: "map_of (s_timers running) ''x'' = None" by (simp add: running_fields)
  show ?thesis
    using timeEnd_untracked_label_noop[OF x m, of plain_env "at 5"] m by simp
qed

text \<open>
  The empty string is never tracked, and it counts as no label: with \<^verbatim>\<open>timer_0\<close> running,
  \<^verbatim>\<open>timeEnd('')\<close> ends \<^verbatim>\<open>timer_0\<close> and returns its result.
\<close>

theorem timeEnd_empty_label_ends_auto_timer:
  "map_of (s_timers running) [] = None
   \<and> fst (timeEnd plain_env (at 5) running (Some []))
       = Inr (Some \<lparr>r_label = ''timer_0'', r_span = 5\<rparr>)
   \<and> s_timers (snd (timeEnd plain_env (at 5) running (Some []))) = []"
proof -
  have c: "chosen_label running (Some []) = Inr (Some ''timer_0'')"
    by (simp add: chosen_label_def no_label_def running_fields select_single)
  have m: "map_of (s_timers running) ''timer_0'' = Some 0"
    by (simp add: running_fields)
  show ?thesis
    using timeEnd_fresh_styles[OF running_fields(4,2,3) c m, of plain_env "at 5"]
    by (simp add: running_fields at_def AList.delete_eq)
qed

subsection \<open>The frame of the timer calls\<close>

text \<open>
  C10. For a label \<open>l\<close> that is not the empty string and every other label \<open>l'\<close>, neither
  \<^verbatim>\<open>time(l)\<close>, with or without options, nor \<^verbatim>\<open>timeEnd(l)\<close> changes whether \<open>l'\<close> is
  tracked or the start time recorded for it, whether the call returns or throws.
\<close>

theorem timer_calls_touch_one_label:
  assumes "l \<noteq> []" and "l' \<noteq> l"
  shows "map_of (s_timers (snd (time e rd s (Some l) options))) l' = map_of (s_timers s) l'
       \<and> map_of (s_timers (snd (timeEnd e rd s (Some l)))) l' = map_of (s_timers s) l'"
proof
  show "map_of (s_timers (snd (time e rd s (Some l) options))) l' = map_of (s_timers s) l'"
    using time_timers[of e rd s "Some l" options] assms
    by (auto simp: update_conv')
  show "map_of (s_timers (snd (timeEnd e rd s (Some l)))) l' = map_of (s_timers s) l'"
    using assms(2) by (simp add: timeEnd_labelled_timers[OF assms(1)] delete_conv')
qed

theorem timer_calls_touch_one_label_witness:
  "map_of (s_timers (snd (time plain_env (at 7) running (Some ''a'') None))) ''timer_0'' = Some 0
   \<and> map_of (s_timers (snd (timeEnd plain_env (at 7) running (Some ''a'')))) ''timer_0'' = Some 0"
proof -
  have a: "''a'' \<noteq> []" and b: "''timer_0'' \<noteq> ''a''" by simp_all
  show ?thesis
    using timer_calls_touch_one_label[OF a b, of plain_env "at 7" running None]
    by (simp add: running_fields)
qed

text \<open>
  With the empty string for \<open>l\<close> the calls work on another label: \<^verbatim>\<open>time('')\<close> starts
  \<^verbatim>\<open>timer_0\<close>, and \<^verbatim>\<open>timeEnd('')\<close> removes it.
\<close>

theorem timer_calls_empty_label_touch_auto_label:
  "[] \<noteq> ''timer_0''
   \<and> map_of (s_timers fresh) ''timer_0'' = None
   \<and> map_of (s_timers (snd (time plain_env (at 10) fresh (Some []) None))) ''timer_0'' = Some 10
   \<and> map_of (s_timers running) ''timer_0'' = Some 0
   \<and> map_of (s_timers (snd (timeEnd plain_env (at 5) running (Some [])))) ''timer_0'' = None"
proof -
  have "time plain_env (at 10) fresh (Some []) None
      = (Inr (label_or_auto fresh (Some [])), snd (time plain_env (at 10) fresh (Some []) None))"
    by (rule time_fresh_styles) simp_all
  from time_returns(2)[OF this]
  have 1: "s_timers (snd (time plain_env (at 10) fresh (Some []) None)) = [(''timer_0'', 10)]"
    by (simp add: label_or_auto_def fresh_fields dec_0 at_def)
  have c: "chosen_label running (Some []) = Inr (Some ''timer_0'')"
    by (simp add: chosen_label_def no_label_def running_fields select_single)
  have m: "map_of (s_timers running) ''timer_0'' = Some 0"
    by (simp add: running_fields)
  have 2: "s_timers (snd (timeEnd plain_env (at 5) running (Some []))) = []"
    using timeEnd_fresh_styles(2)[OF running_fields(4,2,3) c m, of plain_env "at 5"]
    by (simp add: running_fields AList.delete_eq)
  show ?thesis by (simp add: 1 2 fresh_fields running_fields)
qed

subsection \<open>Starting and ending a timer\<close>

text \<open>
  C1. For every label \<open>x\<close> that is not the empty string, on an instance whose start and end
  records are renderable and with a clock that has not gone back between the two calls:
  \<^verbatim>\<open>time(x)\<close> returns \<open>x\<close>, the \<^verbatim>\<open>timeEnd(x)\<close> after it returns the label \<open>x\<close> with the
  span between the two clock readings, which is not negative, \<open>x\<close> is no longer tracked,
  and another \<^verbatim>\<open>timeEnd(x)\<close> returns without a value and changes nothing.
\<close>

theorem time_then_timeEnd:
  assumes "x \<noteq> []" and "start_renderable s" and "end_renderable s"
    and "rd_now rd0 \<le> rd_now rd1"
  shows "\<exists>s1 s2.
           time e rd0 s (Some x) None = (Inr x, s1)
         \<and> timeEnd e rd1 s1 (Some x)
             = (Inr (Some \<lparr>r_label = x, r_span = rd_now rd1 - rd_now rd0\<rparr>), s2)
         \<and> 0 \<le> rd_now rd1 - rd_now rd0
         \<and> map_of (s_timers s2) x = None
         \<and> timeEnd e rd2 s2 (Some x) = (Inr None, s2)"
proof -
  obtain line1 where 1: "time e rd0 s (Some x) None
      = (Inr x, log line1 (s\<lparr>s_timers := AList.update x (rd_now rd0) (s_timers s)\<rparr>))"
    using time_renderable[OF assms(2), of e rd0 "Some x"] assms(1) by auto
  define s1 where "s1 = log line1 (s\<lparr>s_timers := AList.update x (rd_now rd0) (s_timers s)\<rparr>)"
  have t1: "map_of (s_timers s1) x = Some (rd_now rd0)"
    by (simp add: s1_def update_conv')
  have "end_renderable s1"
    using assms(3) end_renderable_cong[of s1 s] by (simp add: s1_def)
  then obtain line2 where 2: "timeEnd e rd1 s1 (Some x)
      = (Inr (Some \<lparr>r_label = x, r_span = rd_now rd1 - rd_now rd0\<rparr>),
         log line2 (s1\<lparr>s_timers := AList.delete x (s_timers s1)\<rparr>))"
    using timeEnd_renderable[OF _ chosen_label_Some[OF assms(1)] t1, of e rd1] by blast
  define s2 where "s2 = log line2 (s1\<lparr>s_timers := AList.delete x (s_timers s1)\<rparr>)"
  have gone: "map_of (s_timers s2) x = None"
    by (simp add: s2_def delete_conv')
  then have 3: "timeEnd e rd2 s2 (Some x) = (Inr None, s2)"
    by (simp add: timeEnd_labelled[OF assms(1)])
  show ?thesis
    using 1 2 3 gone assms(4) unfolding s1_def[symmetric] s2_def[symmetric] by auto
qed

theorem time_then_timeEnd_witness:
  "start_renderable fresh \<and> end_renderable fresh
   \<and> (\<exists>s1 s2.
         time plain_env (at 10) fresh (Some ''x'') None = (Inr ''x'', s1)
       \<and> timeEnd plain_env (at 2510) s1 (Some ''x'')
           = (Inr (Some \<lparr>r_label = ''x'', r_span = 2500\<rparr>), s2)
       \<and> map_of (s_timers s2) ''x'' = None
       \<and> timeEnd plain_env (at 3000) s2 (Some ''x'') = (Inr None, s2))"
proof -
  have x: "''x'' \<noteq> []" by simp
  have o: "rd_now (at 10) \<le> rd_now (at 2510)" by (simp add: at_def)
  have "rd_now (at 2510) - rd_now (at 10) = 2500" by (simp add: at_def)
  then show ?thesis
    using time_then_timeEnd[OF x fresh_renderable o, of plain_env "at 3000"] fresh_renderable
    by auto
qed

text \<open>
  The empty string counts as no label: \<^verbatim>\<open>time('')\<close> returns \<^verbatim>\<open>timer_0\<close>, and the
  \<^verbatim>\<open>timeEnd('')\<close> after it returns the label \<^verbatim>\<open>timer_0\<close>, not the empty string.
\<close>

theorem time_then_timeEnd_empty_label:
  "fst (time plain_env (at 10) fresh (Some []) None) = Inr ''timer_0''
   \<and> fst (timeEnd plain_env (at 2510) (snd (time plain_env (at 10) fresh (Some []) None)) (Some []))
       = Inr (Some \<lparr>r_label = ''timer_0'', r_span = 2500\<rparr>)"
proof -
  define s1 where "s1 = snd (time plain_env (at 10) fresh (Some []) None)"
  have "time plain_env (at 10) fresh (Some []) None = (Inr (label_or_auto fresh (Some [])), s1)"
    unfolding s1_def by (rule time_fresh_styles) simp_all
  then have 1: "time plain_env (at 10) fresh (Some []) None = (Inr ''timer_0'', s1)"
    by (simp add: label_or_auto_def fresh_fields dec_0)
  have t: "s_timers s1 = [(''timer_0'', 10)]"
    using time_returns(2)[OF 1] by (simp add: fresh_fields at_def)
  have k: "s_types s1 = s_types fresh" "s_timer_styles s1 = s_timer_styles fresh"
      "s_heap s1 = s_heap fresh"
    by (simp_all add: s1_def time_keeps time_without_options_keeps_store)
  have c: "chosen_label s1 (Some []) = Inr (Some ''timer_0'')"
    by (simp add: chosen_label_def no_label_def t select_single)
  have m: "map_of (s_timers s1) ''timer_0'' = Some 10" by (simp add: t)
  have 2: "fst (timeEnd plain_env (at 2510) s1 (Some []))
      = Inr (Some \<lparr>r_label = ''timer_0'', r_span = 2500\<rparr>)"
    using timeEnd_fresh_styles(1)[OF k c m, of plain_env "at 2510"]
    by (simp add: at_def)
  show ?thesis
    using 1 2 by (simp add: s1_def[symmetric])
qed

subsection \<open>Automatic labels\<close>

text \<open>
  C7. A \<^verbatim>\<open>time()\<close> without a label records its timer under \<^verbatim>\<open>timer_\<close> followed by the
  number of tracked timers, and this label, which is not the empty string, is what it
  returns when it returns. On an instance without timers whose start record is renderable,
  two such calls in a row return \<^verbatim>\<open>timer_0\<close> and \<^verbatim>\<open>timer_1\<close>, which differ. The label is
  not always a new one: when \<^verbatim>\<open>timer_0\<close> is then ended, the next \<^verbatim>\<open>time()\<close> returns
  \<^verbatim>\<open>timer_1\<close> again, the label of the timer that still runs.
\<close>

theorem time_auto_label:
  assumes "s_timers s = []" and "start_renderable s"
  shows "(case fst (time e' rd' s' None options) of
            Inl err \<Rightarrow> True
          | Inr l \<Rightarrow> l = ''timer_'' @ dec (length (s_timers s')) \<and> l \<noteq> [])
       \<and> s_timers (snd (time e' rd' s' None None))
           = AList.update (''timer_'' @ dec (length (s_timers s'))) (rd_now rd') (s_timers s')
       \<and> (\<exists>s1 s2 r s3 s4.
             time e rda s None None = (Inr ''timer_0'', s1)
           \<and> time e rdb s1 None None = (Inr ''timer_1'', s2)
           \<and> ''timer_0'' \<noteq> ''timer_1''
           \<and> timeEnd e rdc s2 (Some ''timer_0'') = (r, s3)
           \<and> map_of (s_timers s3) ''timer_1'' = Some (rd_now rdb)
           \<and> time e rdd s3 None None = (Inr ''timer_1'', s4))"
proof (intro conjI)
  show "case fst (time e' rd' s' None options) of
            Inl err \<Rightarrow> True
          | Inr l \<Rightarrow> l = ''timer_'' @ dec (length (s_timers s')) \<and> l \<noteq> []"
  proof (cases "time e' rd' s' None options")
    case (Pair res st)
    then show ?thesis
      using time_returns(1)[of e' rd' s' None options _ st]
      by (cases res) auto
  qed
next
  show "s_timers (snd (time e' rd' s' None None))
      = AList.update (''timer_'' @ dec (length (s_timers s'))) (rd_now rd') (s_timers s')"
    by (simp add: time_without_options Let_def split: sum.splits)
next
  obtain line1 where 1: "time e rda s None None
      = (Inr ''timer_0'', log line1 (s\<lparr>s_timers := [(''timer_0'', rd_now rda)]\<rparr>))"
    using time_renderable[OF assms(2), of e rda None] assms(1) by (auto simp: dec_0)
  define s1 where "s1 = log line1 (s\<lparr>s_timers := [(''timer_0'', rd_now rda)]\<rparr>)"
  have r1: "start_renderable s1"
    using assms(2) start_renderable_cong[of s1 s] by (simp add: s1_def)
  have t1: "s_timers s1 = [(''timer_0'', rd_now rda)]" by (simp add: s1_def)
  obtain line2 where 2: "time e rdb s1 None None
      = (Inr ''timer_1'',
         log line2 (s1\<lparr>s_timers := [(''timer_0'', rd_now rda), (''timer_1'', rd_now rdb)]\<rparr>))"
    using time_renderable[OF r1, of e rdb None] by (auto simp: t1 dec_1)
  define s2 where
    "s2 = log line2 (s1\<lparr>s_timers := [(''timer_0'', rd_now rda), (''timer_1'', rd_now rdb)]\<rparr>)"
  have r2: "start_renderable s2"
    using r1 start_renderable_cong[of s2 s1] by (simp add: s2_def)
  define s3 where "s3 = snd (timeEnd e rdc s2 (Some ''timer_0''))"
  have t3: "s_timers s3 = [(''timer_1'', rd_now rdb)]"
    using timeEnd_labelled_timers[of "''timer_0''" e rdc s2]
    by (simp add: s3_def s2_def AList.delete_eq)
  have r3: "start_renderable s3"
    using r2 start_renderable_cong[of s3 s2] by (simp add: s3_def timeEnd_keeps)
  obtain line4 where 4: "time e rdd s3 None None
      = (Inr ''timer_1'', log line4 (s3\<lparr>s_timers := [(''timer_1'', rd_now rdd)]\<rparr>))"
    using time_renderable[OF r3, of e rdd None] by (auto simp: t3 dec_1)
  have e: "timeEnd e rdc s2 (Some ''timer_0'') = (fst (timeEnd e rdc s2 (Some ''timer_0'')), s3)"
    by (simp add: s3_def)
  show "\<exists>s1 s2 r s3 s4.
             time e rda s None None = (Inr ''timer_0'', s1)
           \<and> time e rdb s1 None None = (Inr ''timer_1'', s2)
           \<and> ''timer_0'' \<noteq> ''timer_1''
           \<and> timeEnd e rdc s2 (Some ''timer_0'') = (r, s3)
           \<and> map_of (s_timers s3) ''timer_1'' = Some (rd_now rdb)
           \<and> time e rdd s3 None None = (Inr ''timer_1'', s4)"
    using 1 2 4 e t3 unfolding s1_def[symmetric] s2_def[symmetric]
    by (intro exI[of _ s1] exI[of _ s2] exI[of _ "fst (timeEnd e rdc s2 (Some ''timer_0''))"]
        exI[of _ s3] exI) simp
qed

theorem time_auto_label_witness:
  "s_timers fresh = [] \<and> start_renderable fresh
   \<and> (\<exists>s1 s2 r s3 s4.
         time plain_env (at 1) fresh None None = (Inr ''timer_0'', s1)
       \<and> time plain_env (at 2) s1 None None = (Inr ''timer_1'', s2)
       \<and> timeEnd plain_env (at 3) s2 (Some ''timer_0'') = (r, s3)
       \<and> map_of (s_timers s3) ''timer_1'' = Some 2
       \<and> time plain_env (at 4) s3 None None = (Inr ''timer_1'', s4))"
proof -
  have "rd_now (at 2) = 2" by (simp add: at_def)
  then show ?thesis
    using time_auto_label[OF fresh_fields(1) fresh_renderable(1),
        where e = plain_env and rda = "at 1" and rdb = "at 2" and rdc = "at 3" and rdd = "at 4"]
      fresh_fields(1) fresh_renderable(1)
    by auto
qed

subsection \<open>Composing a line\<close>

lemma sublist_join: "x \<in> set xs \<Longrightarrow> sublist x (join sep xs)"
proof (induction sep xs rule: join.induct)
  case (1 sep)
  then show ?case by simp
next
  case (2 sep y)
  then show ?case by simp
next
  case (3 sep y z zs)
  show ?case
  proof (cases "x = y")
    case True
    then show ?thesis by simp
  next
    case False
    then have "sublist x (join sep (z # zs))" using 3 by simp
    then obtain ps ss where "join sep (z # zs) = ps @ x @ ss"
      by (auto simp: sublist_def)
    then have "join sep (y # z # zs) = (y @ sep @ ps) @ x @ ss" by simp
    then show ?thesis unfolding sublist_def by blast
  qed
qed

lemma sublist_includes: "sublist p s \<longleftrightarrow> str_includes s p"
  by (induction s) (simp_all add: sublist_Cons_right)

lemma classify_text: "classify [Val (JStr M)] = (PVal (JStr M), JUndefined, JUndefined)"
  by (simp add: join_elem_def)

declare classify.simps [simp del]

lemma badge_tokens_unknown:
  "badge_tokens e s None = (if flag s ''displayBadge'' then Inl TypeError else Inr [])"
  by (simp add: badge_tokens_def)

lemma label_tokens_unknown:
  "label_tokens e s None = (if flag s ''displayLabel'' then Inl TypeError else Inr [])"
  by (simp add: label_tokens_def)

lemma lookup_type_registered: "s_types s name = Some t \<Longrightarrow> lookup_type s name = Some t"
  by (simp add: lookup_type_def)

lemma lookup_type_unregistered:
  "s_types s name = None \<Longrightarrow>
     lookup_type s name
       = (if name \<in> set object_prototype_names
          then Some \<lparr>type_badge = None, type_label = None, type_color = ''undefined''\<rparr>
          else None)"
  by (simp add: lookup_type_def)

lemma tokens_inherited:
  "badge_tokens e s (Some \<lparr>type_badge = None, type_label = None, type_color = c\<rparr>) = Inr []"
  "label_tokens e s (Some \<lparr>type_badge = None, type_label = None, type_color = c\<rparr>) = Inr []"
  by (simp_all add: badge_tokens_def label_tokens_def)

text \<open>What the constructor has set when it returns.\<close>

lemma new_signale_fields:
  assumes "new_signale e h n opts = Inr s"
  shows "s_types s = map_of (merge_types (builtin_types e)
                       (case o_types opts of None \<Rightarrow> [] | Some ts \<Rightarrow> ts))"
    and "s_own s =
           (\<lambda>k. if k \<in> set (map fst (merge_types (builtin_types e)
                                  (case o_types opts of None \<Rightarrow> [] | Some ts \<Rightarrow> ts)))
                 then Some (Logger k)
                 else if k \<in> set (option_keys opts) then Some Data else None)"
    and "s_config s
           = packageConfiguration e ++ (case o_config opts of None \<Rightarrow> Map.empty | Some c \<Rightarrow> c)"
    and "filter (\<lambda>k. k \<in> set class_members)
           (map fst (merge_types (builtin_types e)
                       (case o_types opts of None \<Rightarrow> [] | Some ts \<Rightarrow> ts))) = []"
proof -
  define types where
    "types = merge_types (builtin_types e) (case o_types opts of None \<Rightarrow> [] | Some ts \<Rightarrow> ts)"
  from assms obtain styles h' l where
    ok: "filter (\<lambda>k. k \<in> set class_members) (map fst types) = []"
    and s: "s = \<lparr>s_config =
                    packageConfiguration e
                    ++ (case o_config opts of None \<Rightarrow> Map.empty | Some c \<Rightarrow> c),
                  s_customTypes = (case o_types opts of None \<Rightarrow> [] | Some ts \<Rightarrow> ts),
                  s_types = map_of types,
                  s_scopeName =
                    (case o_scope opts of
                       None \<Rightarrow> ScopeStr []
                     | Some sc \<Rightarrow> if scope_truthy sc then sc else ScopeStr []),
                  s_timers = [],
                  s_timers_obj = n,
                  s_timer_styles = styles,
                  s_longestLabel = longest_label l (map snd types),
                  s_stream = (case o_stream opts of None \<Rightarrow> [] | Some w \<Rightarrow> w),
                  s_own =
                    (\<lambda>k. if k \<in> set (map fst types) then Some (Logger k)
                         else if k \<in> set (option_keys opts) then Some Data
                         else None),
                  s_heap = h'\<rparr>"
  proof (cases "filter (\<lambda>k. k \<in> set class_members) (map fst types) = []")
    case False
    with assms show ?thesis
      by (simp add: new_signale_def Let_def types_def[symmetric])
  next
    case ok: True
    show ?thesis
    proof (cases "map_of (builtin_types e) ''start''")
      case None
      with assms ok show ?thesis
        by (simp add: new_signale_def Let_def types_def[symmetric])
    next
      case (Some st)
      show ?thesis
      proof (cases "type_label st")
        case None
        with assms ok Some show ?thesis
          by (simp add: new_signale_def Let_def types_def[symmetric])
      next
        case l: (Some l)
        obtain styles h' where
          "timer_styles (h(n := MapObj [])) (n + 1) (o_timers opts) = (styles, h')"
          by (cases "timer_styles (h(n := MapObj [])) (n + 1) (o_timers opts)")
        with assms ok Some l that[of styles "length l" h'] show ?thesis
          by (simp add: new_signale_def Let_def types_def[symmetric])
      qed
    qed
  qed
  show "s_types s = map_of (merge_types (builtin_types e)
                       (case o_types opts of None \<Rightarrow> [] | Some ts \<Rightarrow> ts))"
    by (simp add: s types_def)
  show "s_own s =
           (\<lambda>k. if k \<in> set (map fst (merge_types (builtin_types e)
                                  (case o_types opts of None \<Rightarrow> [] | Some ts \<Rightarrow> ts)))
                 then Some (Logger k)
                 else if k \<in> set (option_keys opts) then Some Data else None)"
    by (simp add: s types_def)
  show "s_config s
           = packageConfiguration e ++ (case o_config opts of None \<Rightarrow> Map.empty | Some c \<Rightarrow> c)"
    by (simp add: s)
  show "filter (\<lambda>k. k \<in> set class_members)
           (map fst (merge_types (builtin_types e)
                       (case o_types opts of None \<Rightarrow> [] | Some ts \<Rightarrow> ts))) = []"
    using ok by (simp add: types_def)
qed

lemma constructed_loggers:
  assumes "new_signale e h n opts = Inr s"
  shows "s_own s name = Some (Logger t) \<longleftrightarrow> t = name \<and> s_types s name \<noteq> None"
  unfolding new_signale_fields(1,2)[OF assms]
  by (auto simp: map_of_eq_None_iff)

text \<open>
  C5. For a type name that is not in the registry, \<^verbatim>\<open>_logger(name, ...)\<close> throws a
  \<^verbatim>\<open>TypeError\<close> and writes nothing when one of the options \<^verbatim>\<open>displayBadge\<close> and
  \<^verbatim>\<open>displayLabel\<close> is set and the name is not one that the registry inherits from
  \<^verbatim>\<open>Object.prototype\<close>. With both options off the type is never read, and under an
  inherited name its badge and its label are undefined: the line is composed without a
  badge and a label and is written. An instance that the constructor has made has no logger
  under such a name, so that only a direct call of \<^verbatim>\<open>_logger\<close> composes with it.
\<close>

theorem logger_unknown_type:
  assumes "s_types s name = None"
  shows "logger e rd s name args =
     (if (flag s ''displayBadge'' \<or> flag s ''displayLabel'')
         \<and> name \<notin> set object_prototype_names
      then (Inl TypeError, s)
      else (case classify args of
              (msg, pfx, sfx) \<Rightarrow>
                (Inr (), log (join '' '' (meta e rd s @ affix_tokens e s ''underlinePrefix'' pfx
                                          @ message_tokens e s msg sfx)) s)))
     \<and> (\<forall>e0 h n opts t. new_signale e0 h n opts = Inr s \<longrightarrow> s_own s name \<noteq> Some (Logger t))"
proof
  show "logger e rd s name args =
     (if (flag s ''displayBadge'' \<or> flag s ''displayLabel'')
         \<and> name \<notin> set object_prototype_names
      then (Inl TypeError, s)
      else (case classify args of
              (msg, pfx, sfx) \<Rightarrow>
                (Inr (), log (join '' '' (meta e rd s @ affix_tokens e s ''underlinePrefix'' pfx
                                          @ message_tokens e s msg sfx)) s)))"
    by (simp add: logger_def buildSignale_def lookup_type_unregistered[OF assms]
        badge_tokens_unknown label_tokens_unknown tokens_inherited split: prod.splits)
  show "\<forall>e0 h n opts t. new_signale e0 h n opts = Inr s \<longrightarrow> s_own s name \<noteq> Some (Logger t)"
    using assms constructed_loggers by blast
qed

lemma quiet_fields:
  "s_types quiet = s_types fresh" "\<not> flag quiet ''displayBadge''" "\<not> flag quiet ''displayLabel''"
  "\<not> flag quiet ''underlineMessage''" "\<not> flag quiet ''displayDate''"
  "\<not> flag quiet ''displayTimestamp''" "\<not> flag quiet ''displayFilename''"
  "s_scopeName quiet = ScopeStr []" "s_stream quiet = []"
  by (simp_all add: quiet_def config_def set_configuration_def flag_def fresh_def plain_env_def)

lemma fresh_flags:
  "flag fresh ''displayBadge''" "flag fresh ''displayLabel''"
  "\<not> flag fresh ''underlineMessage''" "\<not> flag fresh ''displayDate''"
  "\<not> flag fresh ''displayTimestamp''" "\<not> flag fresh ''displayFilename''"
  "s_scopeName fresh = ScopeStr []" "s_stream fresh = []"
  by (simp_all add: flag_def fresh_def plain_env_def)

text \<open>
  The logger of a name that is not in the registry writes the message: with both options
  off under any name, and with both options on under the name \<^verbatim>\<open>toString\<close>, which the
  registry inherits (the source has no check of the type name).
\<close>

theorem logger_unknown_type_writes:
  "s_types quiet ''nope'' = None
   \<and> logger plain_env (at 0) quiet ''nope'' [Val (JStr ''hello'')]
       = (Inr (), quiet\<lparr>s_stream := [''hello'' @ [CHR 0x0A]]\<rparr>)
   \<and> s_types fresh ''toString'' = None
   \<and> flag fresh ''displayBadge'' \<and> flag fresh ''displayLabel''
   \<and> logger plain_env (at 0) fresh ''toString'' [Val (JStr ''hello'')]
       = (Inr (), fresh\<lparr>s_stream := [''hello'' @ [CHR 0x0A]]\<rparr>)"
proof -
  have 1: "s_types quiet ''nope'' = None" "s_types fresh ''toString'' = None"
    by (simp_all add: quiet_fields) (simp_all add: fresh_def plain_env_def)
  have 2: "logger plain_env (at 0) quiet ''nope'' [Val (JStr ''hello'')]
       = (Inr (), quiet\<lparr>s_stream := [''hello'' @ [CHR 0x0A]]\<rparr>)"
    by (simp add: logger_def buildSignale_def classify_text badge_tokens_def label_tokens_def
        message_tokens_def affix_tokens_def meta_def join_elem_def log_def quiet_fields)
  have 3: "lookup_type fresh ''toString''
      = Some \<lparr>type_badge = None, type_label = None, type_color = ''undefined''\<rparr>"
    by (simp add: lookup_type_unregistered[OF 1(2)] object_prototype_names_def)
  have 4: "logger plain_env (at 0) fresh ''toString'' [Val (JStr ''hello'')]
       = (Inr (), fresh\<lparr>s_stream := [''hello'' @ [CHR 0x0A]]\<rparr>)"
    by (simp add: logger_def buildSignale_def classify_text 3 tokens_inherited
        message_tokens_def affix_tokens_def meta_def join_elem_def log_def fresh_flags)
  show ?thesis using 1 2 4 fresh_flags by simp
qed

theorem logger_unknown_type_witness:
  "s_types fresh ''nope'' = None \<and> flag fresh ''displayBadge''
   \<and> logger plain_env (at 0) fresh ''nope'' [Val (JStr ''hello'')] = (Inl TypeError, fresh)
   \<and> new_signale plain_env empty_store 0 no_options = Inr fresh
   \<and> s_own fresh ''nope'' \<noteq> Some (Logger ''nope'')"
proof -
  have n: "s_types fresh ''nope'' = None" by (simp add: fresh_def plain_env_def)
  have p: "''nope'' \<notin> set object_prototype_names" by (simp add: object_prototype_names_def)
  show ?thesis
    using logger_unknown_type[OF n, of plain_env "at 0" "[Val (JStr ''hello'')]"] n p
      fresh_flags(1) fresh_constructed
    by auto
qed

lemma tokens_returned:
  assumes "chalk_has e (type_color t)"
  shows "\<exists>bs. badge_tokens e s (Some t) = Inr bs" and "\<exists>ls. label_tokens e s (Some t) = Inr ls"
  using assms by (auto simp: badge_tokens_def label_tokens_def Let_def split: option.splits)

text \<open>
  C9. For every type name in the registry and every string \<open>M\<close>, a line composed from the
  one argument \<open>M\<close> contains the message token as a contiguous run: \<open>M\<close> itself when the
  option \<^verbatim>\<open>underlineMessage\<close> is off, and \<^verbatim>\<open>chalk.underline(M)\<close> when it is on. The line
  is composed whenever the colour of the type is a style of \<^verbatim>\<open>chalk\<close>.
\<close>

theorem compose_contains_message:
  assumes "s_types s name = Some t"
  shows "(\<forall>line. buildSignale e rd s (lookup_type s name) [Val (JStr M)] = Inr line
            \<longrightarrow> sublist (if flag s ''underlineMessage'' then chalk_apply e [''underline''] M
                          else M) line)
       \<and> (chalk_has e (type_color t)
            \<longrightarrow> (\<exists>line. buildSignale e rd s (lookup_type s name) [Val (JStr M)] = Inr line))"
proof (intro conjI allI impI)
  fix line
  assume b: "buildSignale e rd s (lookup_type s name) [Val (JStr M)] = Inr line"
  define tok where
    "tok = (if flag s ''underlineMessage'' then chalk_apply e [''underline''] M else M)"
  have m: "message_tokens e s (PVal (JStr M)) JUndefined = [tok]"
    by (simp add: message_tokens_def affix_tokens_def join_elem_def tok_def)
  from b obtain toks where "line = join '' '' toks" and "tok \<in> set toks"
    by (auto simp: buildSignale_def classify_text m split: sum.splits)
  then show "sublist (if flag s ''underlineMessage'' then chalk_apply e [''underline''] M
                      else M) line"
    unfolding tok_def[symmetric] by (simp add: sublist_join)
next
  assume "chalk_has e (type_color t)"
  then show "\<exists>line. buildSignale e rd s (lookup_type s name) [Val (JStr M)] = Inr line"
    using tokens_returned[of e t s]
    by (auto simp: buildSignale_def lookup_type_registered[OF assms] split: prod.splits)
qed

lemma underlined_fields:
  "s_types underlined ''info''
     = Some \<lparr>type_badge = Some ''i'', type_label = Some ''info'', type_color = ''blue''\<rparr>"
  "flag underlined ''underlineMessage''" "flag underlined ''displayBadge''"
  "flag underlined ''displayLabel''" "flag underlined ''underlineLabel''"
  "\<not> flag underlined ''uppercaseLabel''" "\<not> flag underlined ''displayDate''"
  "\<not> flag underlined ''displayTimestamp''" "\<not> flag underlined ''displayFilename''"
  "s_scopeName underlined = ScopeStr []" "s_longestLabel underlined = 5"
  by (simp_all add: underlined_def config_def set_configuration_def flag_def fresh_def
      plain_env_def)

theorem compose_contains_message_witness:
  "s_types underlined ''info'' \<noteq> None \<and> flag underlined ''underlineMessage''
   \<and> (\<exists>line. buildSignale plain_env (at 0) underlined (lookup_type underlined ''info'')
                [Val (JStr ''hello'')] = Inr line
              \<and> sublist ''hello'' line)"
proof -
  have c: "chalk_has plain_env
      (type_color \<lparr>type_badge = Some ''i'', type_label = Some ''info'', type_color = ''blue''\<rparr>)"
    by (simp add: plain_env_def)
  have u: "chalk_apply plain_env [''underline''] ''hello'' = ''hello''"
    by (simp add: plain_env_def)
  show ?thesis
    using compose_contains_message[OF underlined_fields(1), of plain_env "at 0" "''hello''"]
      c u underlined_fields(1,2)
    by auto
qed

text \<open>
  With colour support, the message \<^verbatim>\<open>a\<close>, newline, \<^verbatim>\<open>b\<close> is not a contiguous run of the
  line when \<^verbatim>\<open>underlineMessage\<close> is on: the style is closed before the newline and opened
  again after it.
\<close>

theorem compose_underlined_newline_message:
  "s_types underlined ''info'' \<noteq> None
   \<and> buildSignale ansi_env (at 0) underlined (lookup_type underlined ''info'')
       [Val (JStr (''a'' @ [CHR 0x0A] @ ''b''))]
     = Inr (join '' ''
         [chalk_apply ansi_env [''blue''] ''i '',
          padEnd (chalk_apply ansi_env [''blue'', ''underline''] ''info'') 25,
          CHR 0x1B # ''[4ma'' @ CHR 0x1B # ''[24m'' @ [CHR 0x0A]
            @ CHR 0x1B # ''[4mb'' @ CHR 0x1B # ''[24m''])
   \<and> \<not> sublist (''a'' @ [CHR 0x0A] @ ''b'')
         (join '' ''
           [chalk_apply ansi_env [''blue''] ''i '',
            padEnd (chalk_apply ansi_env [''blue'', ''underline''] ''info'') 25,
            CHR 0x1B # ''[4ma'' @ CHR 0x1B # ''[24m'' @ [CHR 0x0A]
              @ CHR 0x1B # ''[4mb'' @ CHR 0x1B # ''[24m''])"
proof -
  have a: "chalk_apply ansi_env [''underline''] (''a'' @ [CHR 0x0A] @ ''b'')
      = CHR 0x1B # ''[4ma'' @ CHR 0x1B # ''[24m'' @ [CHR 0x0A]
          @ CHR 0x1B # ''[4mb'' @ CHR 0x1B # ''[24m''"
    by (simp add: ansi_env_def ansi_wrap_def ansi_codes_def)
  have h: "chalk_has ansi_env ''blue''" by (simp add: ansi_env_def plain_env_def)
  have 1: "buildSignale ansi_env (at 0) underlined (lookup_type underlined ''info'')
       [Val (JStr (''a'' @ [CHR 0x0A] @ ''b''))]
     = Inr (join '' ''
         [chalk_apply ansi_env [''blue''] ''i '',
          padEnd (chalk_apply ansi_env [''blue'', ''underline''] ''info'') 25,
          CHR 0x1B # ''[4ma'' @ CHR 0x1B # ''[24m'' @ [CHR 0x0A]
            @ CHR 0x1B # ''[4mb'' @ CHR 0x1B # ''[24m''])"
    unfolding a[symmetric]
    by (simp add: buildSignale_def classify_text lookup_type_registered[OF underlined_fields(1)]
        badge_tokens_def label_tokens_def message_tokens_def affix_tokens_def meta_def
        underlined_fields h padEnd_def Let_def del: join.simps)
  have 2: "\<not> sublist (''a'' @ [CHR 0x0A] @ ''b'')
         (join '' ''
           [chalk_apply ansi_env [''blue''] ''i '',
            padEnd (chalk_apply ansi_env [''blue'', ''underline''] ''info'') 25,
            CHR 0x1B # ''[4ma'' @ CHR 0x1B # ''[24m'' @ [CHR 0x0A]
              @ CHR 0x1B # ''[4mb'' @ CHR 0x1B # ''[24m''])"
    by (simp add: ansi_env_def ansi_wrap_def ansi_codes_def padEnd_def sublist_includes
        numeral_2_eq_2)
  show ?thesis using 1 2 underlined_fields(1) by simp
qed

subsection \<open>The options of a timer\<close>

















declare prop_of.simps [simp del] keys_of.simps [simp del] is_record.simps [simp del]


















subsection \<open>Configuration\<close>

text \<open>
  The body of \<^verbatim>\<open>config\<close> sets the configuration to \<open>newObj\<close> merged over the package
  configuration; nothing of the configuration the instance had before is read.
\<close>

lemma config_replaces:
  "config e s newObj = s\<lparr>s_config := packageConfiguration e ++ newObj\<rparr>"
  "s_config (config e (config e s earlier) newObj) = s_config (config e s newObj)"
  "s_config (config e s newObj) k
     = (case newObj k of None \<Rightarrow> packageConfiguration e k | Some b \<Rightarrow> Some b)"
  by (simp_all add: config_def set_configuration_def map_add_def)

lemma config_example:
  "s_config (config plain_env (config plain_env fresh [''displayDate'' \<mapsto> True])
       [''displayBadge'' \<mapsto> False]) ''displayDate'' = Some False"
  by (simp add: config_def set_configuration_def plain_env_def)

text \<open>The call reaches the body on an instance without an own property \<^verbatim>\<open>config\<close>.\<close>

lemma call_config_method:
  "s_own s ''config'' = None \<Longrightarrow>
     call_config e rd s newObj = (Inr (), s\<lparr>s_config := packageConfiguration e ++ newObj\<rparr>)"
  by (simp add: call_config_def config_replaces(1))

lemma constructed_config_member:
  assumes "new_signale e h n opts = Inr s"
  shows "s_own s ''config'' = (if o_config opts = None then None else Some Data)"
proof -
  have "''config'' \<in> set class_members" by (simp add: class_members_def)
  then have "''config'' \<notin> set (map fst (merge_types (builtin_types e)
      (case o_types opts of None \<Rightarrow> [] | Some ts \<Rightarrow> ts)))"
    using new_signale_fields(4)[OF assms] by (auto simp: filter_empty_conv)
  then show ?thesis
    unfolding new_signale_fields(2)[OF assms] by (simp add: option_keys_def)
qed

lemma scope_constructs:
  assumes "scope e parent n name = Inr s"
  shows "new_signale e (s_heap parent) n ((currentOptions parent)\<lparr>o_scope := Some (ScopeArr name)\<rparr>)
           = Inr s"
  using assms by (simp add: scope_def split: if_splits)

text \<open>
  C6. The constructor copies every option onto the instance (lines 28 to 30), so an
  instance made with the option \<^verbatim>\<open>config\<close>, and every instance that \<^verbatim>\<open>scope\<close> returns,
  has an own property \<^verbatim>\<open>config\<close> that is an object and hides the method: the call
  \<^verbatim>\<open>instance.config(newObj)\<close> throws a \<^verbatim>\<open>TypeError\<close> and the configuration stays the
  package configuration with the earlier override, where the body of the method would
  have set it to the package configuration with \<open>newObj\<close>.
\<close>

theorem config_call_after_config_option:
  assumes "(new_signale e h n opts = Inr s \<and> o_config opts = Some earlier)
           \<or> (scope e parent n name = Inr s \<and> s_config parent = earlier)"
  shows "call_config e rd s newObj = (Inl TypeError, s)
       \<and> s_config s = packageConfiguration e ++ earlier
       \<and> s_config (config e s newObj) = packageConfiguration e ++ newObj"
proof -
  from assms obtain h0 opts0 where
    made: "new_signale e h0 n opts0 = Inr s" and c: "o_config opts0 = Some earlier"
    using scope_constructs[of e parent n name s] by (auto simp: currentOptions_def)
  have "s_own s ''config'' = Some Data"
    using constructed_config_member[OF made] c by simp
  then have "call_config e rd s newObj = (Inl TypeError, s)"
    by (simp add: call_config_def)
  moreover have "s_config s = packageConfiguration e ++ earlier"
    using new_signale_fields(3)[OF made] c by simp
  ultimately show ?thesis by (simp add: config_replaces(1))
qed

lemma dated_made:
  "new_signale plain_env empty_store 0 (no_options\<lparr>o_config := Some [''displayDate'' \<mapsto> True]\<rparr>)
     = Inr dated"
  by (simp add: new_signale_def no_options_def plain_env_def dated_def fresh_def merge_types_def
      class_members_def timer_styles_def longest_label_def option_keys_def Let_def fun_eq_iff
      empty_store_def)

theorem config_call_after_config_option_witness:
  "new_signale plain_env empty_store 0 (no_options\<lparr>o_config := Some [''displayDate'' \<mapsto> True]\<rparr>)
     = Inr dated
   \<and> call_config plain_env (at 0) dated [''displayBadge'' \<mapsto> False] = (Inl TypeError, dated)
   \<and> s_config dated ''displayDate'' = Some True
   \<and> s_config dated ''displayBadge'' = Some True
   \<and> s_config (config plain_env dated [''displayBadge'' \<mapsto> False]) ''displayDate'' = Some False
   \<and> s_config (config plain_env dated [''displayBadge'' \<mapsto> False]) ''displayBadge'' = Some False"
proof -
  have o: "o_config (no_options\<lparr>o_config := Some [''displayDate'' \<mapsto> True]\<rparr>)
      = Some [''displayDate'' \<mapsto> True]"
    by simp
  note t = config_call_after_config_option[OF disjI1[OF conjI[OF dated_made o]],
      of "at 0" "[''displayBadge'' \<mapsto> False]"]
  show ?thesis
    using t dated_made by (simp add: plain_env_def)
qed

end
